theory Spec2Isabelle
  imports Main
begin

section \<open>Data model (types.ts)\<close>

text \<open>
  Timestamps are milliseconds since the epoch. A value produced by the worker itself
  (\<^verbatim>\<open>new Date().toISOString()\<close>) is an \<open>int\<close>. A maintenance window carries
  strings supplied by an operator which the code only ever reads through
  \<^verbatim>\<open>new Date(w.startTime)\<close>; the field holds the parsed date, \<open>None\<close> standing for
  JavaScript's Invalid Date, against which every comparison is false. The counters are
  JavaScript numbers that hold integers: \<open>int\<close>.
\<close>

type_synonym jsdate = "int option"

record MaintenanceWindow =
  w_id :: string
  w_startTime :: jsdate
  w_endTime :: jsdate
  w_reason :: "string option"

datatype rule_event = enabled | disabled

record RedirectRuleHistoryEntry =
  h_timestamp :: int
  h_event :: rule_event
  h_reason :: string
  h_failureCount :: int
  h_recoveryCount :: int

record MonitorStateData =
  failureCount :: int
  recoveryCount :: int
  lastCheckTime :: "int option"
  redirectRuleEnabled :: bool
  maintenanceMode :: bool
  maintenanceModeReason :: "string option"
  scheduledMaintenanceWindows :: "MaintenanceWindow list"
  redirectRuleHistory :: "RedirectRuleHistoryEntry list"
  healthChecksTotal :: int
  successesTotal :: int
  failuresTotal :: int
  redirectRuleChangesTotal :: int
  apiErrorsTotal :: int
  lastCronExecution :: "int option"
  workerStartTime :: int
  apiCallsDisabled :: bool

record ValidatedConfig =
  monitorUrl :: string
  failureCountThreshold :: int
  recoveryCountThreshold :: int
  timeoutSeconds :: int
  redirectRuleId :: string
  accountId :: string
  zoneId :: string
  cloudflareApiToken :: string
  logLevel :: string
  apiToken :: string

section \<open>The Durable Object (class MonitorState)\<close>

text \<open>
  The object's storage holds at most one value under the key \<^verbatim>\<open>'state'\<close>.
  \<open>getState\<close> returns the stored value, or builds, stores and returns the default one.
  Every handler reads the clock once; the reading is the argument \<open>now\<close>.
\<close>

type_synonym storage = "MonitorStateData option"

definition defaultState :: "int \<Rightarrow> MonitorStateData" where
  "defaultState now =
     \<lparr> failureCount = 0, recoveryCount = 0, lastCheckTime = None,
       redirectRuleEnabled = False, maintenanceMode = False,
       maintenanceModeReason = None, scheduledMaintenanceWindows = [],
       redirectRuleHistory = [], healthChecksTotal = 0, successesTotal = 0,
       failuresTotal = 0, redirectRuleChangesTotal = 0, apiErrorsTotal = 0,
       lastCronExecution = None, workerStartTime = now, apiCallsDisabled = False \<rparr>"

definition getState :: "int \<Rightarrow> storage \<Rightarrow> MonitorStateData \<times> storage" where
  "getState now st =
     (case st of
        None \<Rightarrow> (defaultState now, Some (defaultState now))
      | Some data \<Rightarrow> (data, Some data))"

definition setState :: "MonitorStateData \<Rightarrow> storage \<Rightarrow> storage" where
  "setState state st = Some state"

datatype http_method = GET | POST | PUT | DELETE

text \<open>
  A request body, typed as the handler that reads it casts it. \<open>NoBody\<close> is a request
  without a body: \<^verbatim>\<open>request.json()\<close> rejects, and so it does on a body of another
  shape than the handler expects, which the TypeScript types exclude.
\<close>

datatype request_body =
    NoBody
  | EnabledReason bool string
  | EnabledOptReason bool "string option"
  | WindowBody MaintenanceWindow
  | ThresholdBody int

text \<open>
  A response of the object: \<open>StateJson\<close> is status 200 with the state as JSON,
  \<open>NotFound\<close> the 404 of an unknown route, \<open>ServerError\<close> the 500 of the handler's
  \<^verbatim>\<open>catch\<close>.
\<close>

datatype do_response = StateJson MonitorStateData | NotFound | ServerError string

definition unshift :: "'a \<Rightarrow> 'a list \<Rightarrow> 'a list" where
  "unshift x xs = x # xs"

definition cap_history :: "RedirectRuleHistoryEntry list \<Rightarrow> RedirectRuleHistoryEntry list" where
  "cap_history h = (if length h > 50 then take 50 h else h)"

text \<open>\<^verbatim>\<open>new Date(w.endTime) > now\<close>: false on an Invalid Date.\<close>

fun date_gt :: "jsdate \<Rightarrow> int \<Rightarrow> bool" where
  "date_gt None now = False"
| "date_gt (Some t) now = (t > now)"

text \<open>\<^verbatim>\<open>url.pathname.split('/').pop()\<close>: what follows the last slash.\<close>

definition last_segment :: "string \<Rightarrow> string" where
  "last_segment p = rev (takeWhile (\<lambda>c. c \<noteq> CHR ''/'') (rev p))"

definition starts_with :: "string \<Rightarrow> string \<Rightarrow> bool" where
  "starts_with p s = (take (length p) s = p)"

text \<open>The common tail of the handlers: \<^verbatim>\<open>setState(state)\<close>, then the state as JSON.\<close>

definition reply :: "MonitorStateData \<Rightarrow> storage \<Rightarrow> do_response \<times> storage" where
  "reply state st = (StateJson state, setState state st)"

definition do_fetch ::
  "int \<Rightarrow> http_method \<Rightarrow> string \<Rightarrow> request_body \<Rightarrow> storage \<Rightarrow> do_response \<times> storage" where
  "do_fetch now method pathname body st =
    (if method = GET \<and> pathname = ''/state'' then
       (case getState now st of (state, st') \<Rightarrow> (StateJson state, st'))
     else if method = POST \<and> pathname = ''/increment-failure'' then
       (case getState now st of (state, st') \<Rightarrow>
          reply (state\<lparr> failureCount := failureCount state + 1,
                        recoveryCount := 0,
                        lastCheckTime := Some now,
                        failuresTotal := failuresTotal state + 1,
                        healthChecksTotal := healthChecksTotal state + 1 \<rparr>) st')
     else if method = POST \<and> pathname = ''/increment-recovery'' then
       (case getState now st of (state, st') \<Rightarrow>
          reply (state\<lparr> recoveryCount := recoveryCount state + 1,
                        failureCount := 0,
                        lastCheckTime := Some now,
                        healthChecksTotal := healthChecksTotal state + 1,
                        successesTotal := successesTotal state + 1 \<rparr>) st')
     else if method = POST \<and> pathname = ''/reset-counters'' then
       (case getState now st of (state, st') \<Rightarrow>
          reply (state\<lparr> failureCount := 0,
                        recoveryCount := 0,
                        healthChecksTotal := 0,
                        successesTotal := 0,
                        failuresTotal := 0,
                        redirectRuleChangesTotal := 0,
                        apiErrorsTotal := 0 \<rparr>) st')
     else if method = POST \<and> pathname = ''/update-redirect-rule-state'' then
       (case body of
          EnabledReason b_enabled b_reason \<Rightarrow>
            (case getState now st of (state, st') \<Rightarrow>
               reply (state\<lparr> redirectRuleEnabled := b_enabled,
                             redirectRuleChangesTotal := redirectRuleChangesTotal state + 1,
                             redirectRuleHistory :=
                               cap_history (unshift
                                 \<lparr> h_timestamp = now,
                                   h_event = (if b_enabled then enabled else disabled),
                                   h_reason = b_reason,
                                   h_failureCount = failureCount state,
                                   h_recoveryCount = recoveryCount state \<rparr>
                                 (redirectRuleHistory state)) \<rparr>) st')
        | _ \<Rightarrow> (ServerError ''Unexpected end of JSON input'', st))
     else if method = POST \<and> pathname = ''/set-maintenance-mode'' then
       (case body of
          EnabledOptReason b_enabled b_reason \<Rightarrow>
            (case getState now st of (state, st') \<Rightarrow>
               reply (state\<lparr> maintenanceMode := b_enabled,
                             maintenanceModeReason := b_reason \<rparr>) st')
        | _ \<Rightarrow> (ServerError ''Unexpected end of JSON input'', st))
     else if method = POST \<and> pathname = ''/add-maintenance-window'' then
       (case body of
          WindowBody w \<Rightarrow>
            (case getState now st of (state, st') \<Rightarrow>
               reply (state\<lparr> scheduledMaintenanceWindows :=
                               scheduledMaintenanceWindows state @ [w] \<rparr>) st')
        | _ \<Rightarrow> (ServerError ''Unexpected end of JSON input'', st))
     else if method = DELETE \<and> starts_with ''/delete-maintenance-window/'' pathname then
       (case getState now st of (state, st') \<Rightarrow>
          reply (state\<lparr> scheduledMaintenanceWindows :=
                          filter (\<lambda>w. w_id w \<noteq> last_segment pathname)
                            (scheduledMaintenanceWindows state) \<rparr>) st')
     else if method = POST \<and> pathname = ''/clean-maintenance-windows'' then
       (case getState now st of (state, st') \<Rightarrow>
          reply (state\<lparr> scheduledMaintenanceWindows :=
                          filter (\<lambda>w. date_gt (w_endTime w) now)
                            (scheduledMaintenanceWindows state) \<rparr>) st')
     else if method = POST \<and> pathname = ''/increment-api-errors'' then
       (case getState now st of (state, st') \<Rightarrow>
          reply (state\<lparr> apiErrorsTotal := apiErrorsTotal state + 1 \<rparr>) st')
     else if method = POST \<and> pathname = ''/update-cron-execution'' then
       (case getState now st of (state, st') \<Rightarrow>
          reply (state\<lparr> lastCronExecution := Some now \<rparr>) st')
     else if method = POST \<and> pathname = ''/disable-api-calls'' then
       (case getState now st of (state, st') \<Rightarrow>
          reply (state\<lparr> apiCallsDisabled := True \<rparr>) st')
     else if method = POST \<and> pathname = ''/simulate-failover'' then
       (case body of
          ThresholdBody threshold \<Rightarrow>
            (case getState now st of (state, st') \<Rightarrow>
               reply (state\<lparr> failureCount := threshold, recoveryCount := 0 \<rparr>) st')
        | _ \<Rightarrow> (ServerError ''Unexpected end of JSON input'', st))
     else if method = POST \<and> pathname = ''/simulate-recovery'' then
       (case body of
          ThresholdBody threshold \<Rightarrow>
            (case getState now st of (state, st') \<Rightarrow>
               reply (state\<lparr> recoveryCount := threshold, failureCount := 0 \<rparr>) st')
        | _ \<Rightarrow> (ServerError ''Unexpected end of JSON input'', st))
     else (NotFound, st))"

section \<open>Effects and exceptions\<close>

text \<open>
  The world a handler runs in: the Durable Object's storage, and the trace of what the
  handler did to the outside (the probe of the monitored URL, each call of
  \<^verbatim>\<open>updateRedirectRule\<close>, each request to the Cloudflare API, each backoff delay).
  A thrown \<^verbatim>\<open>Error\<close> is its message: the code inspects nothing else of it.
\<close>

record Rule =
  r_id :: string
  r_enabled :: bool
  r_fields :: "(string \<times> string) list"

datatype effect =
    HealthProbe string
  | UpdateRedirectRuleCall string bool
  | ApiGet string
  | ApiPut string "Rule list"
  | Delay nat

record world =
  durable :: storage
  trace :: "effect list"

type_synonym 'a io = "world \<Rightarrow> (string + 'a) \<times> world"

definition return :: "'a \<Rightarrow> 'a io" where
  "return x w = (Inr x, w)"

definition throw :: "string \<Rightarrow> 'a io" where
  "throw msg w = (Inl msg, w)"

definition andThen :: "'a io \<Rightarrow> ('a \<Rightarrow> 'b io) \<Rightarrow> 'b io" where
  "andThen m f w = (case m w of (Inl e, w') \<Rightarrow> (Inl e, w') | (Inr x, w') \<Rightarrow> f x w')"

definition tryCatch :: "'a io \<Rightarrow> (string \<Rightarrow> 'a io) \<Rightarrow> 'a io" where
  "tryCatch m h w = (case m w of (Inl e, w') \<Rightarrow> h e w' | (Inr x, w') \<Rightarrow> (Inr x, w'))"

definition emit :: "effect list \<Rightarrow> unit io" where
  "emit es w = (Inr (), w\<lparr> trace := trace w @ es \<rparr>)"

section \<open>StateManager (state-manager.ts)\<close>

text \<open>
  Every method sends one request to the Durable Object and throws its own message when
  the response is not ok (404 or 500). The object is taken to be reachable: the stub's
  \<^verbatim>\<open>fetch\<close> itself does not throw.
\<close>

definition sm_request ::
  "string \<Rightarrow> int \<Rightarrow> http_method \<Rightarrow> string \<Rightarrow> request_body \<Rightarrow> MonitorStateData io" where
  "sm_request failure now method pathname body w =
     (case do_fetch now method pathname body (durable w) of
        (StateJson s, st') \<Rightarrow> (Inr s, w\<lparr> durable := st' \<rparr>)
      | (NotFound, st') \<Rightarrow> (Inl failure, w\<lparr> durable := st' \<rparr>)
      | (ServerError m, st') \<Rightarrow> (Inl failure, w\<lparr> durable := st' \<rparr>))"

definition sm_getState :: "int \<Rightarrow> MonitorStateData io" where
  "sm_getState now =
     sm_request ''Failed to get state from Durable Object'' now GET ''/state'' NoBody"

definition incrementFailure :: "int \<Rightarrow> MonitorStateData io" where
  "incrementFailure now =
     sm_request ''Failed to increment failure counter'' now POST ''/increment-failure'' NoBody"

definition incrementRecovery :: "int \<Rightarrow> MonitorStateData io" where
  "incrementRecovery now =
     sm_request ''Failed to increment recovery counter'' now POST ''/increment-recovery'' NoBody"

definition resetCounters :: "int \<Rightarrow> MonitorStateData io" where
  "resetCounters now =
     sm_request ''Failed to reset counters'' now POST ''/reset-counters'' NoBody"

definition resetAllMetrics :: "int \<Rightarrow> MonitorStateData io" where
  "resetAllMetrics now =
     sm_request ''Failed to reset all metrics'' now POST ''/reset-all-metrics'' NoBody"

definition updateRedirectRuleState :: "bool \<Rightarrow> string \<Rightarrow> int \<Rightarrow> MonitorStateData io" where
  "updateRedirectRuleState en reason now =
     sm_request ''Failed to update redirect rule state'' now POST
       ''/update-redirect-rule-state'' (EnabledReason en reason)"

definition setMaintenanceMode :: "bool \<Rightarrow> string option \<Rightarrow> int \<Rightarrow> MonitorStateData io" where
  "setMaintenanceMode en reason now =
     sm_request ''Failed to set maintenance mode'' now POST
       ''/set-maintenance-mode'' (EnabledOptReason en reason)"

definition addMaintenanceWindow :: "MaintenanceWindow \<Rightarrow> int \<Rightarrow> MonitorStateData io" where
  "addMaintenanceWindow window now =
     sm_request ''Failed to add maintenance window'' now POST
       ''/add-maintenance-window'' (WindowBody window)"

definition deleteMaintenanceWindow :: "string \<Rightarrow> int \<Rightarrow> MonitorStateData io" where
  "deleteMaintenanceWindow windowId now =
     sm_request ''Failed to delete maintenance window'' now DELETE
       (''/delete-maintenance-window/'' @ windowId) NoBody"

definition cleanMaintenanceWindows :: "int \<Rightarrow> MonitorStateData io" where
  "cleanMaintenanceWindows now =
     sm_request ''Failed to clean maintenance windows'' now POST
       ''/clean-maintenance-windows'' NoBody"

definition incrementApiErrors :: "int \<Rightarrow> MonitorStateData io" where
  "incrementApiErrors now =
     sm_request ''Failed to increment API errors'' now POST ''/increment-api-errors'' NoBody"

definition updateCronExecution :: "int \<Rightarrow> MonitorStateData io" where
  "updateCronExecution now =
     sm_request ''Failed to update cron execution'' now POST ''/update-cron-execution'' NoBody"

definition disableApiCalls :: "int \<Rightarrow> MonitorStateData io" where
  "disableApiCalls now =
     sm_request ''Failed to disable API calls'' now POST ''/disable-api-calls'' NoBody"

definition simulateFailover :: "int \<Rightarrow> int \<Rightarrow> MonitorStateData io" where
  "simulateFailover threshold now =
     sm_request ''Failed to simulate failover'' now POST
       ''/simulate-failover'' (ThresholdBody threshold)"

definition simulateRecovery :: "int \<Rightarrow> int \<Rightarrow> MonitorStateData io" where
  "simulateRecovery threshold now =
     sm_request ''Failed to simulate recovery'' now POST
       ''/simulate-recovery'' (ThresholdBody threshold)"

section \<open>CloudflareAPIClient.updateRedirectRule (cloudflare-api.ts)\<close>

text \<open>
  The Cloudflare API is an oracle: \<open>api k\<close> is what the \<open>k\<close>-th \<^verbatim>\<open>fetch\<close> of one
  call of \<^verbatim>\<open>updateRedirectRule\<close> does. It throws, or it answers with a status, a
  status text and a body; the body is the list \<^verbatim>\<open>result.rules\<close>, or the message of
  the error that reading it raises (a body that is not JSON, or has no such list).
\<close>

datatype fetch_result =
    FetchThrows string
  | Response nat string "string + Rule list"

definition response_is_ok :: "nat \<Rightarrow> bool" where
  "response_is_ok status = (200 \<le> status \<and> status \<le> 299)"

fun string_of_nat :: "nat \<Rightarrow> string" where
  "string_of_nat n =
     (if n < 10 then [''0123456789'' ! n]
      else string_of_nat (n div 10) @ [''0123456789'' ! (n mod 10)])"

declare string_of_nat.simps [simp del]

definition string_of_int :: "int \<Rightarrow> string" where
  "string_of_int i = (if i < 0 then ''-'' @ string_of_nat (nat (- i)) else string_of_nat (nat i))"

text \<open>The error thrown on a response that is not ok.\<close>

definition not_ok_error :: "nat \<Rightarrow> string \<Rightarrow> string" where
  "not_ok_error status statusText =
     (if status = 401 \<or> status = 403 then ''AUTHENTICATION_FAILED''
      else ''HTTP '' @ string_of_nat status @ '': '' @ statusText)"

text \<open>
  The body of the \<^verbatim>\<open>try\<close> block: one GET of the ruleset, one PUT of its rules with
  \<^verbatim>\<open>enabled\<close> overwritten. The result is the thrown message or normal completion, the
  requests made, and the index of the next request.
\<close>

definition attemptUpdate ::
  "(nat \<Rightarrow> fetch_result) \<Rightarrow> string \<Rightarrow> bool \<Rightarrow> nat \<Rightarrow> (string + unit) \<times> effect list \<times> nat" where
  "attemptUpdate api ruleId en k =
     (case api k of
        FetchThrows m \<Rightarrow> (Inl m, [ApiGet ruleId], k + 1)
      | Response status statusText body \<Rightarrow>
          if response_is_ok status then
            (case body of
               Inl m \<Rightarrow> (Inl m, [ApiGet ruleId], k + 1)
             | Inr rules \<Rightarrow>
                 (case api (k + 1) of
                    FetchThrows m \<Rightarrow>
                      (Inl m,
                       [ApiGet ruleId, ApiPut ruleId (map (\<lambda>rule. rule\<lparr> r_enabled := en \<rparr>) rules)],
                       k + 2)
                  | Response status2 statusText2 body2 \<Rightarrow>
                      if response_is_ok status2 then
                        (Inr (),
                         [ApiGet ruleId, ApiPut ruleId (map (\<lambda>rule. rule\<lparr> r_enabled := en \<rparr>) rules)],
                         k + 2)
                      else
                        (Inl (not_ok_error status2 statusText2),
                         [ApiGet ruleId, ApiPut ruleId (map (\<lambda>rule. rule\<lparr> r_enabled := en \<rparr>) rules)],
                         k + 2)))
          else (Inl (not_ok_error status statusText), [ApiGet ruleId], k + 1))"

text \<open>The \<^verbatim>\<open>for (let attempt = 1; attempt <= 3; attempt++)\<close> loop and what follows it.\<close>

function retry_loop ::
  "(nat \<Rightarrow> fetch_result) \<Rightarrow> string \<Rightarrow> bool \<Rightarrow> nat \<Rightarrow> nat \<Rightarrow> (string + bool) \<times> effect list" where
  "retry_loop api ruleId en attempt k =
     (if attempt \<le> 3 then
        (case attemptUpdate api ruleId en k of
           (Inr u, es, k') \<Rightarrow> (Inr True, es)
         | (Inl message, es, k') \<Rightarrow>
             if message = ''AUTHENTICATION_FAILED'' then (Inl message, es)
             else
               (case retry_loop api ruleId en (attempt + 1) k' of
                  (r, es') \<Rightarrow>
                    (r, es @ (if attempt < 3 then [Delay (2 ^ (attempt - 1) * 1000)] else []) @ es')))
      else (Inr False, []))"
  by pat_completeness auto
termination
  by (relation "measure (\<lambda>(api, ruleId, en, attempt, k). 4 - attempt)") auto

declare retry_loop.simps [simp del]

definition updateRedirectRule :: "(nat \<Rightarrow> fetch_result) \<Rightarrow> string \<Rightarrow> bool \<Rightarrow> bool io" where
  "updateRedirectRule api ruleId en w =
     (case retry_loop api ruleId en 1 0 of
        (r, es) \<Rightarrow> (r, w\<lparr> trace := trace w @ UpdateRedirectRuleCall ruleId en # es \<rparr>))"

section \<open>The scheduled cycle (index.ts, handleScheduled)\<close>

datatype probe_result = ProbeThrows string | ProbeResponse nat

text \<open>
  What one cycle meets: the clock at the requests to the Durable Object and at
  \<^verbatim>\<open>const now = new Date()\<close>, the answer of the monitored URL, and the Cloudflare API.
  A handler of the object that only reads the clock to build the default state is given
  the reading of the request before it.
\<close>

record cycle_env =
  tCron :: int
  tClean :: int
  tNow :: int
  monitor :: probe_result
  tCheck :: int
  cloudflare :: "nat \<Rightarrow> fetch_result"
  tRule :: int

text \<open>\<^verbatim>\<open>now >= new Date(w.startTime) && now <= new Date(w.endTime)\<close>\<close>

fun now_ge :: "int \<Rightarrow> jsdate \<Rightarrow> bool" where
  "now_ge now None = False"
| "now_ge now (Some t) = (now \<ge> t)"

fun now_le :: "int \<Rightarrow> jsdate \<Rightarrow> bool" where
  "now_le now None = False"
| "now_le now (Some t) = (now \<le> t)"

definition in_window :: "int \<Rightarrow> MaintenanceWindow \<Rightarrow> bool" where
  "in_window now w = (now_ge now (w_startTime w) \<and> now_le now (w_endTime w))"

primrec some :: "('a \<Rightarrow> bool) \<Rightarrow> 'a list \<Rightarrow> bool" where
  "some p [] = False"
| "some p (x # xs) = (p x \<or> some p xs)"

text \<open>Lines 83 to 86 of index.ts.\<close>

definition maintenanceModeActive :: "MonitorStateData \<Rightarrow> int \<Rightarrow> bool" where
  "maintenanceModeActive state now =
     (maintenanceMode state \<or> some (in_window now) (scheduledMaintenanceWindows state))"

text \<open>The health check: only status 200 is healthy; a thrown error is caught and logged.\<close>

fun probe_is_healthy :: "probe_result \<Rightarrow> bool" where
  "probe_is_healthy (ProbeThrows m) = False"
| "probe_is_healthy (ProbeResponse status) = (status = 200)"

definition healthCheck :: "ValidatedConfig \<Rightarrow> cycle_env \<Rightarrow> bool io" where
  "healthCheck config env =
     andThen (emit [HealthProbe (monitorUrl config)]) (\<lambda>_.
       return (probe_is_healthy (monitor env)))"

definition discard :: "'a io \<Rightarrow> unit io" where
  "discard m = andThen m (\<lambda>_. return ())"

text \<open>
  \<open>validated\<close> is the outcome of \<^verbatim>\<open>validateEnvironment\<close> (cached in
  \<^verbatim>\<open>validatedConfig\<close>): the configuration, or the message of the ValidationError on
  which the worker refuses to start.
\<close>

definition handleScheduled :: "string + ValidatedConfig \<Rightarrow> cycle_env \<Rightarrow> unit io" where
  "handleScheduled validated env =
     tryCatch
       (case validated of
          Inl e \<Rightarrow> return ()
        | Inr config \<Rightarrow>
            andThen (updateCronExecution (tCron env)) (\<lambda>_.
            andThen (cleanMaintenanceWindows (tClean env)) (\<lambda>_.
            andThen (sm_getState (tClean env)) (\<lambda>state.
              if apiCallsDisabled state then return ()
              else
                andThen (healthCheck config env) (\<lambda>isHealthy.
                  if isHealthy then
                    andThen (incrementRecovery (tCheck env)) (\<lambda>newState.
                      if recoveryCount newState \<ge> recoveryCountThreshold config
                         \<and> redirectRuleEnabled state then
                        if maintenanceModeActive state (tNow env) then return ()
                        else
                          tryCatch
                            (andThen (updateRedirectRule (cloudflare env) (redirectRuleId config) False)
                               (\<lambda>success.
                                  if success then
                                    andThen (updateRedirectRuleState False
                                        (''Recovery threshold reached (''
                                           @ string_of_int (recoveryCountThreshold config)
                                           @ '' consecutive successes)'') (tRule env)) (\<lambda>_.
                                    discard (resetCounters (tRule env)))
                                  else discard (incrementApiErrors (tRule env))))
                            (\<lambda>message.
                               if message = ''AUTHENTICATION_FAILED''
                               then discard (disableApiCalls (tRule env))
                               else discard (incrementApiErrors (tRule env)))
                      else return ())
                  else
                    andThen (incrementFailure (tCheck env)) (\<lambda>newState.
                      if failureCount newState \<ge> failureCountThreshold config
                         \<and> \<not> redirectRuleEnabled state then
                        if maintenanceModeActive state (tNow env) then return ()
                        else
                          tryCatch
                            (andThen (updateRedirectRule (cloudflare env) (redirectRuleId config) True)
                               (\<lambda>success.
                                  if success then
                                    andThen (updateRedirectRuleState True
                                        (''Failure threshold reached (''
                                           @ string_of_int (failureCountThreshold config)
                                           @ '' consecutive failures)'') (tRule env)) (\<lambda>_.
                                    discard (resetCounters (tRule env)))
                                  else discard (incrementApiErrors (tRule env))))
                            (\<lambda>message.
                               if message = ''AUTHENTICATION_FAILED''
                               then discard (disableApiCalls (tRule env))
                               else discard (incrementApiErrors (tRule env)))
                      else return ()))))))
       (\<lambda>message. return ())"

section \<open>The simulation endpoints (openapi-routes.ts)\<close>

text \<open>
  What a handler answers: the status, and the fields \<^verbatim>\<open>success\<close>, the new counter
  when present and \<^verbatim>\<open>message\<close>; or the status and \<^verbatim>\<open>error\<close> of the handler's
  \<^verbatim>\<open>catch\<close>. The bearer-token middleware in front of the handlers is not part of them.
\<close>

datatype api_response =
    SimulateJson nat bool "int option" string
  | ErrorJson nat string

record handler_env =
  tRequest :: int
  cf_api :: "nat \<Rightarrow> fetch_result"
  tAfter :: int

definition simulateFailoverHandler :: "string + ValidatedConfig \<Rightarrow> handler_env \<Rightarrow> api_response io" where
  "simulateFailoverHandler validated env =
     tryCatch
       (case validated of
          Inl e \<Rightarrow> throw e
        | Inr config \<Rightarrow>
            andThen (simulateFailover (failureCountThreshold config) (tRequest env)) (\<lambda>state.
            andThen (updateRedirectRule (cf_api env) (redirectRuleId config) True) (\<lambda>success.
              if success then
                andThen (updateRedirectRuleState True
                    ''Simulated failover - manually triggered via API'' (tAfter env)) (\<lambda>_.
                andThen (resetCounters (tAfter env)) (\<lambda>_.
                  return (SimulateJson 200 True (Some 0) ''Redirect rule enabled successfully'')))
              else
                andThen (incrementApiErrors (tAfter env)) (\<lambda>_.
                  return (SimulateJson 500 False None
                    ''Failed to enable redirect rule via Cloudflare API'')))))
       (\<lambda>message. return (ErrorJson 500 message))"

definition simulateRecoveryHandler :: "string + ValidatedConfig \<Rightarrow> handler_env \<Rightarrow> api_response io" where
  "simulateRecoveryHandler validated env =
     tryCatch
       (case validated of
          Inl e \<Rightarrow> throw e
        | Inr config \<Rightarrow>
            andThen (simulateRecovery (recoveryCountThreshold config) (tRequest env)) (\<lambda>state.
            andThen (updateRedirectRule (cf_api env) (redirectRuleId config) False) (\<lambda>success.
              if success then
                andThen (updateRedirectRuleState False
                    ''Simulated recovery - manually triggered via API'' (tAfter env)) (\<lambda>_.
                andThen (resetCounters (tAfter env)) (\<lambda>_.
                  return (SimulateJson 200 True (Some 0) ''Redirect rule disabled successfully'')))
              else
                andThen (incrementApiErrors (tAfter env)) (\<lambda>_.
                  return (SimulateJson 500 False None
                    ''Failed to disable redirect rule via Cloudflare API'')))))
       (\<lambda>message. return (ErrorJson 500 message))"

text \<open>The handlers of \<^verbatim>\<open>POST /reset-counters\<close> and \<^verbatim>\<open>POST /reset-all-metrics\<close>.\<close>

datatype success_response =
    SuccessJson bool string
  | FailureJson nat string

definition resetCountersHandler :: "int \<Rightarrow> success_response io" where
  "resetCountersHandler now =
     tryCatch
       (andThen (resetCounters now) (\<lambda>_. return (SuccessJson True ''Counters reset successfully'')))
       (\<lambda>message. return (FailureJson 500 message))"

definition resetAllMetricsHandler :: "int \<Rightarrow> success_response io" where
  "resetAllMetricsHandler now =
     tryCatch
       (andThen (resetAllMetrics now) (\<lambda>_. return (SuccessJson True ''All metrics reset successfully'')))
       (\<lambda>message. return (FailureJson 500 message))"

section \<open>Auxiliary notions for the statements\<close>

text \<open>The state a handler of the Durable Object works on: the stored one, or the default.\<close>


definition stored :: "int \<Rightarrow> storage \<Rightarrow> MonitorStateData" where
  "stored now st = (case st of None \<Rightarrow> defaultState now | Some d \<Rightarrow> d)"

text \<open>A sequence of requests to the Durable Object, each with the clock it meets.\<close>

type_synonym do_request = "int \<times> http_method \<times> string \<times> request_body"

fun run_requests :: "do_request list \<Rightarrow> storage \<Rightarrow> storage" where
  "run_requests [] st = st"
| "run_requests ((now, method, pathname, body) # rs) st =
     run_requests rs (snd (do_fetch now method pathname body st))"

definition counters_exclusive :: "storage \<Rightarrow> bool" where
  "counters_exclusive st =
     (case st of None \<Rightarrow> True | Some s \<Rightarrow> failureCount s = 0 \<or> recoveryCount s = 0)"

text \<open>Reading a trace: the calls of the Rule Controller, the GET requests, the delays,
  the rule collections submitted.\<close>

fun toggle_calls :: "effect list \<Rightarrow> (string \<times> bool) list" where
  "toggle_calls [] = []"
| "toggle_calls (UpdateRedirectRuleCall ruleId en # es) = (ruleId, en) # toggle_calls es"
| "toggle_calls (e # es) = toggle_calls es"

fun api_gets :: "effect list \<Rightarrow> nat" where
  "api_gets [] = 0"
| "api_gets (ApiGet ruleId # es) = Suc (api_gets es)"
| "api_gets (e # es) = api_gets es"

fun delays :: "effect list \<Rightarrow> nat list" where
  "delays [] = []"
| "delays (Delay ms # es) = ms # delays es"
| "delays (e # es) = delays es"

fun probes :: "effect list \<Rightarrow> nat" where
  "probes [] = 0"
| "probes (HealthProbe url # es) = Suc (probes es)"
| "probes (e # es) = probes es"

fun submitted :: "effect list \<Rightarrow> Rule list list" where
  "submitted [] = []"
| "submitted (ApiPut ruleId rules # es) = rules # submitted es"
| "submitted (e # es) = submitted es"

text \<open>Scheduled cycles one after the other, each in its own environment.\<close>

fun run_cycles :: "string + ValidatedConfig \<Rightarrow> cycle_env list \<Rightarrow> world \<Rightarrow> world" where
  "run_cycles validated [] w = w"
| "run_cycles validated (env # envs) w =
     run_cycles validated envs (snd (handleScheduled validated env w))"

text \<open>
  The state a cycle reads at \<^verbatim>\<open>getState\<close>, after it stamped the cron time and swept the
  expired windows.
\<close>

definition cycle_state :: "cycle_env \<Rightarrow> MonitorStateData \<Rightarrow> MonitorStateData" where
  "cycle_state env s =
     s\<lparr> lastCronExecution := Some (tCron env),
        scheduledMaintenanceWindows :=
          filter (\<lambda>w. date_gt (w_endTime w) (tClean env)) (scheduledMaintenanceWindows s) \<rparr>"

text \<open>The state once the cycle has recorded its probe, by the handler the probe selects.\<close>

definition recorded :: "cycle_env \<Rightarrow> MonitorStateData \<Rightarrow> MonitorStateData" where
  "recorded env s =
     (if probe_is_healthy (monitor env)
      then stored (tCheck env)
             (snd (do_fetch (tCheck env) POST ''/increment-recovery'' NoBody
                     (Some (cycle_state env s))))
      else stored (tCheck env)
             (snd (do_fetch (tCheck env) POST ''/increment-failure'' NoBody
                     (Some (cycle_state env s)))))"

text \<open>
  The cycle reaches the call of the Rule Controller: no latch, no suppression, and the
  counter the probe bumps meets its threshold while the rule is in the opposite state.
\<close>

definition toggle_due :: "ValidatedConfig \<Rightarrow> cycle_env \<Rightarrow> MonitorStateData \<Rightarrow> bool" where
  "toggle_due config env s =
     (\<not> apiCallsDisabled s \<and> \<not> maintenanceModeActive (cycle_state env s) (tNow env) \<and>
      (if probe_is_healthy (monitor env)
       then recoveryCount s + 1 \<ge> recoveryCountThreshold config \<and> redirectRuleEnabled s
       else failureCount s + 1 \<ge> failureCountThreshold config \<and> \<not> redirectRuleEnabled s))"

text \<open>
  The attempt whose first request has index \<open>k\<close> is answered 401 or 403, at its GET
  or, the GET being fine, at its PUT.
\<close>

definition is_auth_status :: "nat \<Rightarrow> bool" where
  "is_auth_status status = (status = 401 \<or> status = 403)"

definition observes_auth_failure :: "(nat \<Rightarrow> fetch_result) \<Rightarrow> nat \<Rightarrow> bool" where
  "observes_auth_failure api k =
     (case api k of
        FetchThrows m \<Rightarrow> False
      | Response status statusText body \<Rightarrow>
          if is_auth_status status then True
          else if response_is_ok status then
            (case body of
               Inl m \<Rightarrow> False
             | Inr rules \<Rightarrow>
                 (case api (k + 1) of
                    FetchThrows m \<Rightarrow> False
                  | Response status2 statusText2 body2 \<Rightarrow> is_auth_status status2))
          else False)"

text \<open>
  The specification's reading of the update, in its words: the collection is re-submitted
  with only the target rule's flag overwritten, the other rules unchanged.
\<close>

definition spec_overwrite_target :: "string \<Rightarrow> bool \<Rightarrow> Rule list \<Rightarrow> Rule list" where
  "spec_overwrite_target ruleId en rules =
     map (\<lambda>rule. if r_id rule = ruleId then rule\<lparr> r_enabled := en \<rparr> else rule) rules"

text \<open>Concrete inputs on which the statements below are exercised.\<close>

definition example_config :: ValidatedConfig where
  "example_config =
     \<lparr> monitorUrl = ''https://example.com/health'', failureCountThreshold = 3,
       recoveryCountThreshold = 2, timeoutSeconds = 10, redirectRuleId = ''rs1'',
       accountId = ''acc'', zoneId = ''zone'', cloudflareApiToken = ''cf-token'',
       logLevel = ''debug'', apiToken = ''token'' \<rparr>"

definition example_rules :: "Rule list" where
  "example_rules =
     [\<lparr> r_id = ''r1'', r_enabled = False, r_fields = [(''action'', ''redirect'')] \<rparr>,
      \<lparr> r_id = ''r2'', r_enabled = False, r_fields = [(''action'', ''rewrite'')] \<rparr>]"

definition api_ok :: "nat \<Rightarrow> fetch_result" where
  "api_ok k = Response 200 ''OK'' (Inr example_rules)"

definition api_down :: "nat \<Rightarrow> fetch_result" where
  "api_down k = Response 502 ''Bad Gateway'' (Inl ''Unexpected token'')"

definition api_recovers :: "nat \<Rightarrow> fetch_result" where
  "api_recovers k = (if k < 2 then api_down k else api_ok k)"

definition api_forbidden_second :: "nat \<Rightarrow> fetch_result" where
  "api_forbidden_second k =
     (if k < 1 then api_down k else Response 403 ''Forbidden'' (Inl ''Unexpected token''))"

definition example_env :: "probe_result \<Rightarrow> (nat \<Rightarrow> fetch_result) \<Rightarrow> int \<Rightarrow> cycle_env" where
  "example_env answer api t =
     \<lparr> tCron = t, tClean = t + 1, tNow = t + 2, monitor = answer, tCheck = t + 3,
       cloudflare = api, tRule = t + 4 \<rparr>"

definition example_request :: "(nat \<Rightarrow> fetch_result) \<Rightarrow> int \<Rightarrow> handler_env" where
  "example_request api t = \<lparr> tRequest = t, cf_api = api, tAfter = t + 1 \<rparr>"

definition fresh :: world where
  "fresh = \<lparr> durable = None, trace = [] \<rparr>"

text \<open>Stores in which the next unhealthy probe brings the failure counter to 3.\<close>

definition due_world :: world where
  "due_world = \<lparr> durable = Some ((defaultState 0)\<lparr> failureCount := 2 \<rparr>), trace = [] \<rparr>"

definition maintenance_world :: world where
  "maintenance_world =
     \<lparr> durable = Some ((defaultState 0)\<lparr> failureCount := 2, maintenanceMode := True \<rparr>),
       trace = [] \<rparr>"

definition window_world :: world where
  "window_world =
     \<lparr> durable = Some ((defaultState 0)
         \<lparr> failureCount := 2,
           scheduledMaintenanceWindows :=
             [\<lparr> w_id = ''w1'', w_startTime = Some 0, w_endTime = Some 120000,
                w_reason = None \<rparr>] \<rparr>),
       trace = [] \<rparr>"

definition latched_world :: world where
  "latched_world =
     \<lparr> durable = Some ((defaultState 0)\<lparr> failureCount := 2, apiCallsDisabled := True \<rparr>),
       trace = [] \<rparr>"

section \<open>What each StateManager method does\<close>

lemma getState_stored: "getState now st = (stored now st, Some (stored now st))"
  by (simp add: getState_def stored_def split: option.splits)

lemma stored_Some [simp]: "stored now (Some s) = s"
  by (simp add: stored_def)

lemma run_updateCronExecution:
  "updateCronExecution t w =
     (Inr ((stored t (durable w))\<lparr> lastCronExecution := Some t \<rparr>),
      w\<lparr> durable := Some ((stored t (durable w))\<lparr> lastCronExecution := Some t \<rparr>) \<rparr>)"
  by (simp add: updateCronExecution_def sm_request_def do_fetch_def getState_stored reply_def setState_def)

lemma run_cleanMaintenanceWindows:
  "cleanMaintenanceWindows t w =
     (Inr ((stored t (durable w))\<lparr> scheduledMaintenanceWindows :=
              filter (\<lambda>w. date_gt (w_endTime w) t) (scheduledMaintenanceWindows (stored t (durable w))) \<rparr>),
      w\<lparr> durable := Some ((stored t (durable w))\<lparr> scheduledMaintenanceWindows :=
              filter (\<lambda>w. date_gt (w_endTime w) t) (scheduledMaintenanceWindows (stored t (durable w))) \<rparr>) \<rparr>)"
  by (simp add: cleanMaintenanceWindows_def sm_request_def do_fetch_def getState_stored reply_def setState_def)

lemma run_sm_getState:
  "sm_getState t w = (Inr (stored t (durable w)), w\<lparr> durable := Some (stored t (durable w)) \<rparr>)"
  by (simp add: sm_getState_def sm_request_def do_fetch_def getState_stored)

lemma run_incrementFailure:
  "incrementFailure t w =
     (Inr ((stored t (durable w))\<lparr> failureCount := failureCount (stored t (durable w)) + 1,
              recoveryCount := 0, lastCheckTime := Some t,
              failuresTotal := failuresTotal (stored t (durable w)) + 1,
              healthChecksTotal := healthChecksTotal (stored t (durable w)) + 1 \<rparr>),
      w\<lparr> durable := Some ((stored t (durable w))\<lparr> failureCount := failureCount (stored t (durable w)) + 1,
              recoveryCount := 0, lastCheckTime := Some t,
              failuresTotal := failuresTotal (stored t (durable w)) + 1,
              healthChecksTotal := healthChecksTotal (stored t (durable w)) + 1 \<rparr>) \<rparr>)"
  by (simp add: incrementFailure_def sm_request_def do_fetch_def getState_stored reply_def setState_def)

lemma run_incrementRecovery:
  "incrementRecovery t w =
     (Inr ((stored t (durable w))\<lparr> recoveryCount := recoveryCount (stored t (durable w)) + 1,
              failureCount := 0, lastCheckTime := Some t,
              healthChecksTotal := healthChecksTotal (stored t (durable w)) + 1,
              successesTotal := successesTotal (stored t (durable w)) + 1 \<rparr>),
      w\<lparr> durable := Some ((stored t (durable w))\<lparr> recoveryCount := recoveryCount (stored t (durable w)) + 1,
              failureCount := 0, lastCheckTime := Some t,
              healthChecksTotal := healthChecksTotal (stored t (durable w)) + 1,
              successesTotal := successesTotal (stored t (durable w)) + 1 \<rparr>) \<rparr>)"
  by (simp add: incrementRecovery_def sm_request_def do_fetch_def getState_stored reply_def setState_def)

lemma run_resetCounters:
  "resetCounters t w =
     (Inr ((stored t (durable w))\<lparr> failureCount := 0, recoveryCount := 0, healthChecksTotal := 0,
              successesTotal := 0, failuresTotal := 0, redirectRuleChangesTotal := 0,
              apiErrorsTotal := 0 \<rparr>),
      w\<lparr> durable := Some ((stored t (durable w))\<lparr> failureCount := 0, recoveryCount := 0, healthChecksTotal := 0,
              successesTotal := 0, failuresTotal := 0, redirectRuleChangesTotal := 0,
              apiErrorsTotal := 0 \<rparr>) \<rparr>)"
  by (simp add: resetCounters_def sm_request_def do_fetch_def getState_stored reply_def setState_def)

lemma run_updateRedirectRuleState:
  "updateRedirectRuleState en reason t w =
     (Inr ((stored t (durable w))\<lparr> redirectRuleEnabled := en,
              redirectRuleChangesTotal := redirectRuleChangesTotal (stored t (durable w)) + 1,
              redirectRuleHistory := cap_history (
                 \<lparr> h_timestamp = t, h_event = (if en then enabled else disabled), h_reason = reason,
                   h_failureCount = failureCount (stored t (durable w)),
                   h_recoveryCount = recoveryCount (stored t (durable w)) \<rparr>
                 # redirectRuleHistory (stored t (durable w))) \<rparr>),
      w\<lparr> durable := Some ((stored t (durable w))\<lparr> redirectRuleEnabled := en,
              redirectRuleChangesTotal := redirectRuleChangesTotal (stored t (durable w)) + 1,
              redirectRuleHistory := cap_history (
                 \<lparr> h_timestamp = t, h_event = (if en then enabled else disabled), h_reason = reason,
                   h_failureCount = failureCount (stored t (durable w)),
                   h_recoveryCount = recoveryCount (stored t (durable w)) \<rparr>
                 # redirectRuleHistory (stored t (durable w))) \<rparr>) \<rparr>)"
  by (simp add: updateRedirectRuleState_def sm_request_def do_fetch_def getState_stored reply_def
      setState_def unshift_def)

lemma run_incrementApiErrors:
  "incrementApiErrors t w =
     (Inr ((stored t (durable w))\<lparr> apiErrorsTotal := apiErrorsTotal (stored t (durable w)) + 1 \<rparr>),
      w\<lparr> durable := Some ((stored t (durable w))\<lparr> apiErrorsTotal := apiErrorsTotal (stored t (durable w)) + 1 \<rparr>) \<rparr>)"
  by (simp add: incrementApiErrors_def sm_request_def do_fetch_def getState_stored reply_def setState_def)

lemma run_disableApiCalls:
  "disableApiCalls t w =
     (Inr ((stored t (durable w))\<lparr> apiCallsDisabled := True \<rparr>),
      w\<lparr> durable := Some ((stored t (durable w))\<lparr> apiCallsDisabled := True \<rparr>) \<rparr>)"
  by (simp add: disableApiCalls_def sm_request_def do_fetch_def getState_stored reply_def setState_def)

lemma run_simulateFailover:
  "simulateFailover n t w =
     (Inr ((stored t (durable w))\<lparr> failureCount := n, recoveryCount := 0 \<rparr>),
      w\<lparr> durable := Some ((stored t (durable w))\<lparr> failureCount := n, recoveryCount := 0 \<rparr>) \<rparr>)"
  by (simp add: simulateFailover_def sm_request_def do_fetch_def getState_stored reply_def setState_def)

lemma run_simulateRecovery:
  "simulateRecovery n t w =
     (Inr ((stored t (durable w))\<lparr> recoveryCount := n, failureCount := 0 \<rparr>),
      w\<lparr> durable := Some ((stored t (durable w))\<lparr> recoveryCount := n, failureCount := 0 \<rparr>) \<rparr>)"
  by (simp add: simulateRecovery_def sm_request_def do_fetch_def getState_stored reply_def setState_def)

lemma run_resetAllMetrics:
  "resetAllMetrics t w = (Inl ''Failed to reset all metrics'', w)"
  by (simp add: resetAllMetrics_def sm_request_def do_fetch_def)

section \<open>The consecutive counters exclude each other\<close>

lemma do_fetch_exclusive:
  "counters_exclusive st \<Longrightarrow> counters_exclusive (snd (do_fetch now method pathname body st))"
  unfolding do_fetch_def getState_stored reply_def setState_def
  by (auto simp: counters_exclusive_def stored_def defaultState_def
      split: request_body.splits option.splits)

lemma run_requests_exclusive:
  "counters_exclusive st \<Longrightarrow> counters_exclusive (run_requests reqs st)"
  by (induction reqs arbitrary: st) (auto simp: do_fetch_exclusive)

text \<open>
  Claim C2. Whatever requests the Durable Object has served since its storage was empty
  (any method, any path, any body, any clock), the stored state has
  \<open>failureCount = 0\<close> or \<open>recoveryCount = 0\<close>; in particular
  \<^verbatim>\<open>/increment-failure\<close> leaves the recovery counter at zero and
  \<^verbatim>\<open>/increment-recovery\<close> the failure counter, from every storage.
\<close>

theorem consecutive_counters_exclusive:
  "counters_exclusive (run_requests reqs None)
   \<and> recoveryCount (stored t (snd (do_fetch now POST ''/increment-failure'' body st))) = 0
   \<and> failureCount (stored t (snd (do_fetch now POST ''/increment-recovery'' body st))) = 0"
proof -
  have "counters_exclusive None"
    by (simp add: counters_exclusive_def)
  then have "counters_exclusive (run_requests reqs None)"
    by (rule run_requests_exclusive)
  moreover have "recoveryCount (stored t (snd (do_fetch now POST ''/increment-failure'' body st))) = 0"
    by (simp add: do_fetch_def getState_stored reply_def setState_def)
  moreover have "failureCount (stored t (snd (do_fetch now POST ''/increment-recovery'' body st))) = 0"
    by (simp add: do_fetch_def getState_stored reply_def setState_def)
  ultimately show ?thesis by simp
qed

section \<open>The request for a reset of all metrics\<close>

text \<open>
  Claim C9. \<^verbatim>\<open>StateManager.resetAllMetrics\<close> posts to \<^verbatim>\<open>/reset-all-metrics\<close>, a path
  the Durable Object has no handler for: the object answers 404 and leaves its storage
  as it was, the method throws, and the endpoint answers 500. The operation the claim
  describes is not provided.
\<close>

theorem reset_all_metrics_unhandled:
  "do_fetch now POST ''/reset-all-metrics'' body st = (NotFound, st)
   \<and> resetAllMetrics now w = (Inl ''Failed to reset all metrics'', w)
   \<and> resetAllMetricsHandler now w = (Inr (FailureJson 500 ''Failed to reset all metrics''), w)"
  by (simp add: do_fetch_def resetAllMetricsHandler_def run_resetAllMetrics tryCatch_def
      andThen_def return_def)

section \<open>The retry loop of the Rule Controller\<close>

lemma api_gets_append: "api_gets (a @ b) = api_gets a + api_gets b"
  by (induction a rule: api_gets.induct) simp_all

lemma delays_append: "delays (a @ b) = delays a @ delays b"
  by (induction a rule: delays.induct) simp_all

lemma attemptUpdate_events:
  "attemptUpdate api ruleId en k = (r, es, k') \<Longrightarrow> api_gets es = 1 \<and> delays es = []"
  by (auto simp: attemptUpdate_def split: fetch_result.splits sum.splits if_splits)

lemma retry_loop_exhausted: "retry_loop api ruleId en 4 k = (Inr False, [])"
  by (subst retry_loop.simps) simp

lemma retry_loop_success:
  "attempt \<le> 3 \<Longrightarrow> attemptUpdate api ruleId en k = (Inr u, es, k') \<Longrightarrow>
   retry_loop api ruleId en attempt k = (Inr True, es)"
  by (subst retry_loop.simps) simp

lemma retry_loop_auth:
  "attempt \<le> 3 \<Longrightarrow> attemptUpdate api ruleId en k = (Inl ''AUTHENTICATION_FAILED'', es, k') \<Longrightarrow>
   retry_loop api ruleId en attempt k = (Inl ''AUTHENTICATION_FAILED'', es)"
  by (subst retry_loop.simps) simp

lemma first_attempt_transient:
  "attemptUpdate api ruleId en k = (Inl m, es, k') \<Longrightarrow> m \<noteq> ''AUTHENTICATION_FAILED'' \<Longrightarrow>
   retry_loop api ruleId en 1 k =
     (fst (retry_loop api ruleId en 2 k'), es @ [Delay 1000] @ snd (retry_loop api ruleId en 2 k'))"
  by (subst retry_loop.simps) (simp del: One_nat_def split: prod.splits)

lemma second_attempt_transient:
  "attemptUpdate api ruleId en k = (Inl m, es, k') \<Longrightarrow> m \<noteq> ''AUTHENTICATION_FAILED'' \<Longrightarrow>
   retry_loop api ruleId en 2 k =
     (fst (retry_loop api ruleId en 3 k'), es @ [Delay 2000] @ snd (retry_loop api ruleId en 3 k'))"
  by (subst retry_loop.simps) (simp del: One_nat_def split: prod.splits)

lemma third_attempt_transient:
  "attemptUpdate api ruleId en k = (Inl m, es, k') \<Longrightarrow> m \<noteq> ''AUTHENTICATION_FAILED'' \<Longrightarrow>
   retry_loop api ruleId en 3 k = (Inr False, es)"
  by (subst retry_loop.simps) (simp del: One_nat_def add: retry_loop_exhausted)

lemma observed_auth_failure:
  "observes_auth_failure api k \<Longrightarrow> fst (attemptUpdate api ruleId en k) = Inl ''AUTHENTICATION_FAILED''"
  by (auto simp: observes_auth_failure_def attemptUpdate_def not_ok_error_def is_auth_status_def
      response_is_ok_def split: fetch_result.splits sum.splits if_splits)

lemma third_attempt_bounds:
  "api_gets (snd (retry_loop api ruleId en 3 k)) \<le> 1 \<and> delays (snd (retry_loop api ruleId en 3 k)) = []"
proof -
  obtain r es k' where a: "attemptUpdate api ruleId en k = (r, es, k')"
    by (cases "attemptUpdate api ruleId en k") auto
  note ev = attemptUpdate_events [OF a]
  show ?thesis
  proof (cases r)
    case (Inr u)
    with a have "retry_loop api ruleId en 3 k = (Inr True, es)"
      by (intro retry_loop_success) simp_all
    with ev show ?thesis by simp
  next
    case (Inl m)
    show ?thesis
    proof (cases "m = ''AUTHENTICATION_FAILED''")
      case True
      with a Inl have "retry_loop api ruleId en 3 k = (Inl ''AUTHENTICATION_FAILED'', es)"
        by (intro retry_loop_auth) simp_all
      with ev show ?thesis by simp
    next
      case False
      with a Inl have "retry_loop api ruleId en 3 k = (Inr False, es)"
        by (intro third_attempt_transient) simp_all
      with ev show ?thesis by simp
    qed
  qed
qed

lemma second_attempt_bounds:
  "api_gets (snd (retry_loop api ruleId en 2 k)) \<le> 2
   \<and> delays (snd (retry_loop api ruleId en 2 k)) \<in> {[], [2000]}"
proof -
  obtain r es k' where a: "attemptUpdate api ruleId en k = (r, es, k')"
    by (cases "attemptUpdate api ruleId en k") auto
  note ev = attemptUpdate_events [OF a]
  show ?thesis
  proof (cases r)
    case (Inr u)
    with a have "retry_loop api ruleId en 2 k = (Inr True, es)"
      by (intro retry_loop_success) simp_all
    with ev show ?thesis by simp
  next
    case (Inl m)
    show ?thesis
    proof (cases "m = ''AUTHENTICATION_FAILED''")
      case True
      with a Inl have "retry_loop api ruleId en 2 k = (Inl ''AUTHENTICATION_FAILED'', es)"
        by (intro retry_loop_auth) simp_all
      with ev show ?thesis by simp
    next
      case False
      with a Inl have "snd (retry_loop api ruleId en 2 k)
          = es @ [Delay 2000] @ snd (retry_loop api ruleId en 3 k')"
        by (simp add: second_attempt_transient)
      with ev third_attempt_bounds [of api ruleId en k'] show ?thesis
        by (simp add: api_gets_append delays_append)
    qed
  qed
qed

lemma first_attempt_bounds:
  "api_gets (snd (retry_loop api ruleId en 1 k)) \<le> 3
   \<and> delays (snd (retry_loop api ruleId en 1 k)) \<in> {[], [1000], [1000, 2000]}"
proof -
  obtain r es k' where a: "attemptUpdate api ruleId en k = (r, es, k')"
    by (cases "attemptUpdate api ruleId en k") auto
  note ev = attemptUpdate_events [OF a]
  show ?thesis
  proof (cases r)
    case (Inr u)
    with a have "retry_loop api ruleId en 1 k = (Inr True, es)"
      by (intro retry_loop_success) simp_all
    with ev show ?thesis by simp
  next
    case (Inl m)
    show ?thesis
    proof (cases "m = ''AUTHENTICATION_FAILED''")
      case True
      with a Inl have "retry_loop api ruleId en 1 k = (Inl ''AUTHENTICATION_FAILED'', es)"
        by (intro retry_loop_auth) simp_all
      with ev show ?thesis by simp
    next
      case False
      with a Inl have "snd (retry_loop api ruleId en 1 k)
          = es @ [Delay 1000] @ snd (retry_loop api ruleId en 2 k')"
        by (simp add: first_attempt_transient del: One_nat_def)
      with ev second_attempt_bounds [of api ruleId en k'] show ?thesis
        by (auto simp: api_gets_append delays_append)
    qed
  qed
qed

text \<open>
  Claim C6. One call of \<^verbatim>\<open>updateRedirectRule\<close> makes at most three attempts (each
  attempt starts with one GET), and its delays are none, 1000 ms, or 1000 ms then
  2000 ms. When the first two attempts fail with an error other than the authentication
  failure: if the third fails so too, the call returns \<^verbatim>\<open>false\<close> (it does not throw)
  and nothing follows the third attempt; if the third attempt succeeds, the call returns
  \<^verbatim>\<open>true\<close>, after exactly the two delays of 1000 ms and 2000 ms.
\<close>

theorem retry_policy:
  "api_gets (snd (retry_loop api ruleId en 1 0)) \<le> 3
   \<and> delays (snd (retry_loop api ruleId en 1 0)) \<in> {[], [1000], [1000, 2000]}
   \<and> (attemptUpdate api ruleId en 0 = (Inl m1, es1, k1) \<and> m1 \<noteq> ''AUTHENTICATION_FAILED''
        \<and> attemptUpdate api ruleId en k1 = (Inl m2, es2, k2) \<and> m2 \<noteq> ''AUTHENTICATION_FAILED''
      \<longrightarrow>
        (attemptUpdate api ruleId en k2 = (Inl m3, es3, k3) \<and> m3 \<noteq> ''AUTHENTICATION_FAILED''
          \<longrightarrow> retry_loop api ruleId en 1 0
                = (Inr False, es1 @ [Delay 1000] @ es2 @ [Delay 2000] @ es3))
        \<and> (attemptUpdate api ruleId en k2 = (Inr (), es3, k3)
          \<longrightarrow> retry_loop api ruleId en 1 0
                = (Inr True, es1 @ [Delay 1000] @ es2 @ [Delay 2000] @ es3)
              \<and> delays (snd (retry_loop api ruleId en 1 0)) = [1000, 2000]))"
proof -
  have bounds: "api_gets (snd (retry_loop api ruleId en 1 0)) \<le> 3
      \<and> delays (snd (retry_loop api ruleId en 1 0)) \<in> {[], [1000], [1000, 2000]}"
    by (rule first_attempt_bounds)
  have fail: "retry_loop api ruleId en 1 0
        = (Inr False, es1 @ [Delay 1000] @ es2 @ [Delay 2000] @ es3)"
    if "attemptUpdate api ruleId en 0 = (Inl m1, es1, k1)" "m1 \<noteq> ''AUTHENTICATION_FAILED''"
       "attemptUpdate api ruleId en k1 = (Inl m2, es2, k2)" "m2 \<noteq> ''AUTHENTICATION_FAILED''"
       "attemptUpdate api ruleId en k2 = (Inl m3, es3, k3)" "m3 \<noteq> ''AUTHENTICATION_FAILED''"
    using that
    by (simp add: first_attempt_transient [of api ruleId en 0 m1 es1 k1]
        second_attempt_transient [of api ruleId en k1 m2 es2 k2]
        third_attempt_transient [of api ruleId en k2 m3 es3 k3] del: One_nat_def)
  have succeed: "retry_loop api ruleId en 1 0
        = (Inr True, es1 @ [Delay 1000] @ es2 @ [Delay 2000] @ es3)"
    if "attemptUpdate api ruleId en 0 = (Inl m1, es1, k1)" "m1 \<noteq> ''AUTHENTICATION_FAILED''"
       "attemptUpdate api ruleId en k1 = (Inl m2, es2, k2)" "m2 \<noteq> ''AUTHENTICATION_FAILED''"
       "attemptUpdate api ruleId en k2 = (Inr (), es3, k3)"
    using that
    by (simp add: first_attempt_transient [of api ruleId en 0 m1 es1 k1]
        second_attempt_transient [of api ruleId en k1 m2 es2 k2]
        retry_loop_success [of 3 api ruleId en k2 "()" es3 k3] del: One_nat_def)
  have two: "delays (es1 @ [Delay 1000] @ es2 @ [Delay 2000] @ es3) = [1000, 2000]"
    if "attemptUpdate api ruleId en 0 = (Inl m1, es1, k1)"
       "attemptUpdate api ruleId en k1 = (Inl m2, es2, k2)"
       "attemptUpdate api ruleId en k2 = (Inr (), es3, k3)"
    using that [THEN attemptUpdate_events] by (simp add: delays_append)
  from bounds fail succeed two show ?thesis by (simp del: One_nat_def)
qed


lemma attempt_api_down:
  "attemptUpdate api_down ''rs1'' True k = (Inl ''HTTP 502: Bad Gateway'', [ApiGet ''rs1''], k + 1)"
  by (simp add: attemptUpdate_def api_down_def response_is_ok_def not_ok_error_def
      string_of_nat.simps)

theorem retry_policy_witness:
  "attemptUpdate api_recovers ''rs1'' True 0 = (Inl ''HTTP 502: Bad Gateway'', [ApiGet ''rs1''], 1)
   \<and> attemptUpdate api_recovers ''rs1'' True 1 = (Inl ''HTTP 502: Bad Gateway'', [ApiGet ''rs1''], 2)
   \<and> attemptUpdate api_recovers ''rs1'' True 2
       = (Inr (), [ApiGet ''rs1'', ApiPut ''rs1'' (map (\<lambda>rule. rule\<lparr> r_enabled := True \<rparr>) example_rules)], 4)
   \<and> retry_loop api_recovers ''rs1'' True 1 0
       = (Inr True,
          [ApiGet ''rs1'', Delay 1000, ApiGet ''rs1'', Delay 2000, ApiGet ''rs1'',
           ApiPut ''rs1'' (map (\<lambda>rule. rule\<lparr> r_enabled := True \<rparr>) example_rules)])
   \<and> attemptUpdate api_down ''rs1'' True 2 = (Inl ''HTTP 502: Bad Gateway'', [ApiGet ''rs1''], 3)
   \<and> retry_loop api_down ''rs1'' True 1 0
       = (Inr False, [ApiGet ''rs1'', Delay 1000, ApiGet ''rs1'', Delay 2000, ApiGet ''rs1''])"
proof -
  have a1: "attemptUpdate api_recovers ''rs1'' True 0 = (Inl ''HTTP 502: Bad Gateway'', [ApiGet ''rs1''], 1)"
    by (simp add: attemptUpdate_def api_recovers_def api_down_def response_is_ok_def not_ok_error_def
      string_of_nat.simps)
  have a2: "attemptUpdate api_recovers ''rs1'' True 1 = (Inl ''HTTP 502: Bad Gateway'', [ApiGet ''rs1''], 2)"
    by (simp add: attemptUpdate_def api_recovers_def api_down_def response_is_ok_def not_ok_error_def
      string_of_nat.simps)
  have a3: "attemptUpdate api_recovers ''rs1'' True 2
       = (Inr (), [ApiGet ''rs1'', ApiPut ''rs1'' (map (\<lambda>rule. rule\<lparr> r_enabled := True \<rparr>) example_rules)], 4)"
    by (simp add: attemptUpdate_def api_recovers_def api_ok_def response_is_ok_def)
  have ne: "''HTTP 502: Bad Gateway'' \<noteq> ''AUTHENTICATION_FAILED''"
    by simp
  have d1: "attemptUpdate api_down ''rs1'' True 0 = (Inl ''HTTP 502: Bad Gateway'', [ApiGet ''rs1''], 1)"
    and d2: "attemptUpdate api_down ''rs1'' True 1 = (Inl ''HTTP 502: Bad Gateway'', [ApiGet ''rs1''], 2)"
    and d3: "attemptUpdate api_down ''rs1'' True 2 = (Inl ''HTTP 502: Bad Gateway'', [ApiGet ''rs1''], 3)"
    by (simp_all add: attempt_api_down)
  from a1 a2 a3 ne
    retry_policy [where api = api_recovers and ruleId = "''rs1''" and en = True
      and ?m1.0 = "''HTTP 502: Bad Gateway''" and ?es1.0 = "[ApiGet ''rs1'']" and ?k1.0 = 1
      and ?m2.0 = "''HTTP 502: Bad Gateway''" and ?es2.0 = "[ApiGet ''rs1'']" and ?k2.0 = 2
      and ?es3.0 = "[ApiGet ''rs1'', ApiPut ''rs1'' (map (\<lambda>rule. rule\<lparr> r_enabled := True \<rparr>) example_rules)]"
      and ?k3.0 = 4]
  have r1: "retry_loop api_recovers ''rs1'' True 1 0
       = (Inr True,
          [ApiGet ''rs1'', Delay 1000, ApiGet ''rs1'', Delay 2000, ApiGet ''rs1'',
           ApiPut ''rs1'' (map (\<lambda>rule. rule\<lparr> r_enabled := True \<rparr>) example_rules)])"
    by (simp del: One_nat_def)
  from d1 d2 d3 ne
    retry_policy [where api = api_down and ruleId = "''rs1''" and en = True
      and ?m1.0 = "''HTTP 502: Bad Gateway''" and ?es1.0 = "[ApiGet ''rs1'']" and ?k1.0 = 1
      and ?m2.0 = "''HTTP 502: Bad Gateway''" and ?es2.0 = "[ApiGet ''rs1'']" and ?k2.0 = 2
      and ?m3.0 = "''HTTP 502: Bad Gateway''" and ?es3.0 = "[ApiGet ''rs1'']" and ?k3.0 = 3]
  have r2: "retry_loop api_down ''rs1'' True 1 0
       = (Inr False, [ApiGet ''rs1'', Delay 1000, ApiGet ''rs1'', Delay 2000, ApiGet ''rs1''])"
    by (simp del: One_nat_def)
  from a1 a2 a3 d3 r1 r2 show ?thesis by (simp del: One_nat_def)
qed

section \<open>What one scheduled cycle does\<close>

lemma recorded_healthy:
  "probe_is_healthy (monitor env) \<Longrightarrow>
   recorded env s =
     (cycle_state env s)\<lparr> recoveryCount := recoveryCount s + 1, failureCount := 0,
        lastCheckTime := Some (tCheck env), healthChecksTotal := healthChecksTotal s + 1,
        successesTotal := successesTotal s + 1 \<rparr>"
  by (simp add: recorded_def do_fetch_def getState_stored reply_def setState_def cycle_state_def)

lemma recorded_unhealthy:
  "\<not> probe_is_healthy (monitor env) \<Longrightarrow>
   recorded env s =
     (cycle_state env s)\<lparr> failureCount := failureCount s + 1, recoveryCount := 0,
        lastCheckTime := Some (tCheck env), failuresTotal := failuresTotal s + 1,
        healthChecksTotal := healthChecksTotal s + 1 \<rparr>"
  by (simp add: recorded_def do_fetch_def getState_stored reply_def setState_def cycle_state_def)

lemma cycle_latched:
  "apiCallsDisabled (stored (tCron env) (durable w)) \<Longrightarrow>
   handleScheduled (Inr config) env w
     = (Inr (), w\<lparr> durable := Some (cycle_state env (stored (tCron env) (durable w))) \<rparr>)"
  by (simp add: handleScheduled_def tryCatch_def andThen_def return_def cycle_state_def
      run_updateCronExecution run_cleanMaintenanceWindows run_sm_getState)

lemma cycle_quiet:
  "\<not> apiCallsDisabled (stored (tCron env) (durable w)) \<Longrightarrow>
   \<not> toggle_due config env (stored (tCron env) (durable w)) \<Longrightarrow>
   handleScheduled (Inr config) env w
     = (Inr (), w\<lparr> durable := Some (recorded env (stored (tCron env) (durable w))),
                    trace := trace w @ [HealthProbe (monitorUrl config)] \<rparr>)"
  by (auto simp: handleScheduled_def tryCatch_def andThen_def return_def cycle_state_def
      toggle_due_def healthCheck_def emit_def maintenanceModeActive_def
      recorded_healthy recorded_unhealthy
      run_updateCronExecution run_cleanMaintenanceWindows run_sm_getState
      run_incrementFailure run_incrementRecovery)


lemma cycle_reaches_toggle:
  "toggle_due config env (stored (tCron env) (durable w)) \<Longrightarrow>
   retry_loop (cloudflare env) (redirectRuleId config) (\<not> probe_is_healthy (monitor env)) 1 0 = (r, es) \<Longrightarrow>
   handleScheduled (Inr config) env w
     = (Inr (),
        snd ((case r of
               Inr success \<Rightarrow>
                 if success then
                   andThen (updateRedirectRuleState (\<not> probe_is_healthy (monitor env))
                      (if probe_is_healthy (monitor env)
                       then ''Recovery threshold reached (''
                              @ string_of_int (recoveryCountThreshold config)
                              @ '' consecutive successes)''
                       else ''Failure threshold reached (''
                              @ string_of_int (failureCountThreshold config)
                              @ '' consecutive failures)'')
                      (tRule env))
                     (\<lambda>_. resetCounters (tRule env))
                 else incrementApiErrors (tRule env)
             | Inl message \<Rightarrow>
                 if message = ''AUTHENTICATION_FAILED'' then disableApiCalls (tRule env)
                 else incrementApiErrors (tRule env))
          (w\<lparr> durable := Some (recorded env (stored (tCron env) (durable w))),
              trace := trace w @ HealthProbe (monitorUrl config)
                # UpdateRedirectRuleCall (redirectRuleId config) (\<not> probe_is_healthy (monitor env))
                # es \<rparr>)))"
  by (cases r)
     (auto simp: handleScheduled_def tryCatch_def andThen_def return_def cycle_state_def
      toggle_due_def healthCheck_def emit_def maintenanceModeActive_def discard_def
      recorded_healthy recorded_unhealthy updateRedirectRule_def
      run_updateCronExecution run_cleanMaintenanceWindows run_sm_getState
      run_incrementFailure run_incrementRecovery run_updateRedirectRuleState
      run_resetCounters run_incrementApiErrors run_disableApiCalls simp del: One_nat_def)

section \<open>Reading the traces\<close>

lemma toggle_calls_append: "toggle_calls (a @ b) = toggle_calls a @ toggle_calls b"
  by (induction a rule: toggle_calls.induct) simp_all

lemma probes_append: "probes (a @ b) = probes a + probes b"
  by (induction a rule: probes.induct) simp_all

lemma attemptUpdate_no_calls:
  "attemptUpdate api ruleId en k = (r, es, k') \<Longrightarrow> toggle_calls es = [] \<and> probes es = 0"
  by (auto simp: attemptUpdate_def split: fetch_result.splits sum.splits if_splits)

lemma retry_loop_no_calls:
  "toggle_calls (snd (retry_loop api ruleId en attempt k)) = []
   \<and> probes (snd (retry_loop api ruleId en attempt k)) = 0"
proof (induction "4 - attempt" arbitrary: attempt k)
  case 0
  then have "\<not> attempt \<le> 3" by simp
  then have "retry_loop api ruleId en attempt k = (Inr False, [])"
    by (subst retry_loop.simps) simp
  then show ?case by simp
next
  case (Suc n)
  then have le: "attempt \<le> 3" by simp
  obtain r es k' where a: "attemptUpdate api ruleId en k = (r, es, k')"
    by (cases "attemptUpdate api ruleId en k") auto
  note ev = attemptUpdate_no_calls [OF a]
  show ?case
  proof (cases r)
    case (Inr u)
    with a le have "retry_loop api ruleId en attempt k = (Inr True, es)"
      by (intro retry_loop_success) simp_all
    with ev show ?thesis by simp
  next
    case (Inl m)
    show ?thesis
    proof (cases "m = ''AUTHENTICATION_FAILED''")
      case True
      with a le Inl have "retry_loop api ruleId en attempt k = (Inl ''AUTHENTICATION_FAILED'', es)"
        by (intro retry_loop_auth) simp_all
      with ev show ?thesis by simp
    next
      case False
      from Suc.hyps(2) have "n = 4 - (attempt + 1)" by simp
      then have ih: "toggle_calls (snd (retry_loop api ruleId en (attempt + 1) k')) = []
          \<and> probes (snd (retry_loop api ruleId en (attempt + 1) k')) = 0"
        by (rule Suc.hyps(1))
      from a Inl False le have "snd (retry_loop api ruleId en attempt k)
          = es @ (if attempt < 3 then [Delay (2 ^ (attempt - 1) * 1000)] else [])
               @ snd (retry_loop api ruleId en (attempt + 1) k')"
        by (subst retry_loop.simps) (simp split: prod.splits)
      with ev ih show ?thesis
        by (simp add: toggle_calls_append probes_append)
    qed
  qed
qed

lemma retry_loop_starts_with_get:
  "\<exists>es. snd (retry_loop api ruleId en 1 0) = ApiGet ruleId # es"
proof -
  obtain r es k' where a: "attemptUpdate api ruleId en 0 = (r, es, k')"
    by (cases "attemptUpdate api ruleId en 0") auto
  then have g: "\<exists>es'. es = ApiGet ruleId # es'"
    by (auto simp: attemptUpdate_def split: fetch_result.splits sum.splits if_splits)
  show ?thesis
  proof (cases r)
    case (Inr u)
    with a have "retry_loop api ruleId en 1 0 = (Inr True, es)"
      by (intro retry_loop_success) simp_all
    with g show ?thesis by auto
  next
    case (Inl m)
    show ?thesis
    proof (cases "m = ''AUTHENTICATION_FAILED''")
      case True
      with a Inl have "retry_loop api ruleId en 1 0 = (Inl ''AUTHENTICATION_FAILED'', es)"
        by (intro retry_loop_auth) simp_all
      with g show ?thesis by auto
    next
      case False
      with a Inl have "snd (retry_loop api ruleId en 1 0)
          = es @ [Delay 1000] @ snd (retry_loop api ruleId en 2 k')"
        by (simp add: first_attempt_transient del: One_nat_def)
      with g show ?thesis by auto
    qed
  qed
qed

lemma simulateFailoverHandler_trace:
  "trace (snd (simulateFailoverHandler (Inr config) env w))
     = trace w @ UpdateRedirectRuleCall (redirectRuleId config) True
         # snd (retry_loop (cf_api env) (redirectRuleId config) True 1 0)"
proof -
  obtain r es where l: "retry_loop (cf_api env) (redirectRuleId config) True 1 0 = (r, es)"
    by (cases "retry_loop (cf_api env) (redirectRuleId config) True 1 0") auto
  show ?thesis
    by (cases r)
       (auto simp: simulateFailoverHandler_def tryCatch_def andThen_def return_def l
        updateRedirectRule_def run_simulateFailover run_updateRedirectRuleState
        run_resetCounters run_incrementApiErrors simp del: One_nat_def)
qed

lemma simulateRecoveryHandler_trace:
  "trace (snd (simulateRecoveryHandler (Inr config) env w))
     = trace w @ UpdateRedirectRuleCall (redirectRuleId config) False
         # snd (retry_loop (cf_api env) (redirectRuleId config) False 1 0)"
proof -
  obtain r es where l: "retry_loop (cf_api env) (redirectRuleId config) False 1 0 = (r, es)"
    by (cases "retry_loop (cf_api env) (redirectRuleId config) False 1 0") auto
  show ?thesis
    by (cases r)
       (auto simp: simulateRecoveryHandler_def tryCatch_def andThen_def return_def l
        updateRedirectRule_def run_simulateRecovery run_updateRedirectRuleState
        run_resetCounters run_incrementApiErrors simp del: One_nat_def)
qed

section \<open>Cycles with an unhealthy probe\<close>

lemma recorded_unhealthy_fields:
  assumes "\<not> probe_is_healthy (monitor env)"
  shows "failureCount (recorded env s) = failureCount s + 1"
    and "recoveryCount (recorded env s) = 0"
    and "redirectRuleEnabled (recorded env s) = redirectRuleEnabled s"
    and "apiCallsDisabled (recorded env s) = apiCallsDisabled s"
    and "maintenanceMode (recorded env s) = maintenanceMode s"
    and "scheduledMaintenanceWindows (recorded env s)
          = filter (\<lambda>w. date_gt (w_endTime w) (tClean env)) (scheduledMaintenanceWindows s)"
    and "redirectRuleHistory (recorded env s) = redirectRuleHistory s"
    and "healthChecksTotal (recorded env s) = healthChecksTotal s + 1"
    and "failuresTotal (recorded env s) = failuresTotal s + 1"
    and "successesTotal (recorded env s) = successesTotal s"
    and "redirectRuleChangesTotal (recorded env s) = redirectRuleChangesTotal s"
    and "apiErrorsTotal (recorded env s) = apiErrorsTotal s"
  using assms by (simp_all add: recorded_unhealthy cycle_state_def)

lemma recorded_healthy_fields:
  assumes "probe_is_healthy (monitor env)"
  shows "recoveryCount (recorded env s) = recoveryCount s + 1"
    and "failureCount (recorded env s) = 0"
    and "redirectRuleEnabled (recorded env s) = redirectRuleEnabled s"
    and "apiCallsDisabled (recorded env s) = apiCallsDisabled s"
    and "maintenanceMode (recorded env s) = maintenanceMode s"
    and "scheduledMaintenanceWindows (recorded env s)
          = filter (\<lambda>w. date_gt (w_endTime w) (tClean env)) (scheduledMaintenanceWindows s)"
    and "redirectRuleHistory (recorded env s) = redirectRuleHistory s"
    and "healthChecksTotal (recorded env s) = healthChecksTotal s + 1"
    and "successesTotal (recorded env s) = successesTotal s + 1"
    and "failuresTotal (recorded env s) = failuresTotal s"
    and "redirectRuleChangesTotal (recorded env s) = redirectRuleChangesTotal s"
    and "apiErrorsTotal (recorded env s) = apiErrorsTotal s"
  using assms by (simp_all add: recorded_healthy cycle_state_def)

text \<open>A cycle whose probe is unhealthy and which has no toggle to make.\<close>

lemma unhealthy_cycle_quiet:
  assumes "durable w = Some s" "\<not> apiCallsDisabled s" "\<not> probe_is_healthy (monitor env)"
    and "failureCount s + 1 < failureCountThreshold config \<or> redirectRuleEnabled s"
  shows "snd (handleScheduled (Inr config) env w)
     = w\<lparr> durable := Some (recorded env s), trace := trace w @ [HealthProbe (monitorUrl config)] \<rparr>"
proof -
  from assms have "\<not> toggle_due config env (stored (tCron env) (durable w))"
    by (auto simp: toggle_due_def)
  with assms show ?thesis by (simp add: cycle_quiet)
qed

lemma unhealthy_cycle_enables:
  assumes "durable w = Some s" "\<not> apiCallsDisabled s" "\<not> probe_is_healthy (monitor env)"
    and "failureCount s + 1 \<ge> failureCountThreshold config" "\<not> redirectRuleEnabled s"
    and "\<not> maintenanceMode s" "scheduledMaintenanceWindows s = []"
    and "retry_loop (cloudflare env) (redirectRuleId config) True 1 0 = (Inr True, es)"
  shows "snd (handleScheduled (Inr config) env w)
     = w\<lparr> durable := Some ((recorded env s)
            \<lparr> redirectRuleEnabled := True,
              redirectRuleHistory := cap_history
                 (\<lparr> h_timestamp = tRule env, h_event = enabled,
                    h_reason = ''Failure threshold reached (''
                       @ string_of_int (failureCountThreshold config) @ '' consecutive failures)'',
                    h_failureCount = failureCount s + 1, h_recoveryCount = 0 \<rparr>
                  # redirectRuleHistory s),
              failureCount := 0, recoveryCount := 0, healthChecksTotal := 0, successesTotal := 0,
              failuresTotal := 0, redirectRuleChangesTotal := 0, apiErrorsTotal := 0 \<rparr>),
          trace := trace w @ HealthProbe (monitorUrl config)
             # UpdateRedirectRuleCall (redirectRuleId config) True # es \<rparr>"
proof -
  from assms have due: "toggle_due config env (stored (tCron env) (durable w))"
    by (simp add: toggle_due_def maintenanceModeActive_def cycle_state_def)
  from assms(3,8) have l: "retry_loop (cloudflare env) (redirectRuleId config)
      (\<not> probe_is_healthy (monitor env)) 1 0 = (Inr True, es)"
    by simp
  show ?thesis
    using assms(1,3)
    by (simp add: cycle_reaches_toggle [OF due l] andThen_def run_updateRedirectRuleState
        run_resetCounters recorded_unhealthy_fields del: One_nat_def)
qed

section \<open>The threshold edge\<close>

text \<open>
  Claim C1. With failure threshold 3, on a fresh store, four cycles whose probes are all
  unhealthy, the Rule Controller succeeding in the third: the first two cycles call the
  Rule Controller not at all, the third calls it exactly once, to enable, and the fourth
  does not call it again. The history entry written in the third cycle records a failure
  count equal to the threshold: the comparison is \<open>\<ge>\<close>, and equality triggers.
\<close>

theorem three_unhealthy_probes_enable_once:
  assumes thr: "failureCountThreshold config = 3"
    and u1: "\<not> probe_is_healthy (monitor e1)"
    and u2: "\<not> probe_is_healthy (monitor e2)"
    and u3: "\<not> probe_is_healthy (monitor e3)"
    and u4: "\<not> probe_is_healthy (monitor e4)"
    and ok: "fst (retry_loop (cloudflare e3) (redirectRuleId config) True 1 0) = Inr True"
  shows "toggle_calls (trace (run_cycles (Inr config) [e1] fresh)) = []
       \<and> toggle_calls (trace (run_cycles (Inr config) [e1, e2] fresh)) = []
       \<and> toggle_calls (trace (run_cycles (Inr config) [e1, e2, e3] fresh))
           = [(redirectRuleId config, True)]
       \<and> toggle_calls (trace (run_cycles (Inr config) [e1, e2, e3, e4] fresh))
           = [(redirectRuleId config, True)]
       \<and> map h_failureCount (redirectRuleHistory
             (stored 0 (durable (run_cycles (Inr config) [e1, e2, e3] fresh))))
           = [failureCountThreshold config]"
proof -
  define s0 where "s0 = defaultState (tCron e1)"
  define s1 where "s1 = recorded e1 s0"
  define s2 where "s2 = recorded e2 s1"
  define url where "url = monitorUrl config"
  obtain es where l: "retry_loop (cloudflare e3) (redirectRuleId config) True 1 0 = (Inr True, es)"
    using ok by (cases "retry_loop (cloudflare e3) (redirectRuleId config) True 1 0") auto
  have es: "toggle_calls es = []"
    using retry_loop_no_calls [of "cloudflare e3" "redirectRuleId config" True 1 0] l by simp
  have p0: "\<not> apiCallsDisabled s0" "\<not> redirectRuleEnabled s0" "\<not> maintenanceMode s0"
    "scheduledMaintenanceWindows s0 = []" "failureCount s0 = 0" "redirectRuleHistory s0 = []"
    by (simp_all add: s0_def defaultState_def)
  have p1: "\<not> apiCallsDisabled s1" "\<not> redirectRuleEnabled s1" "\<not> maintenanceMode s1"
    "scheduledMaintenanceWindows s1 = []" "failureCount s1 = 1" "redirectRuleHistory s1 = []"
    using p0 by (simp_all add: s1_def recorded_unhealthy_fields [OF u1])
  have p2: "\<not> apiCallsDisabled s2" "\<not> redirectRuleEnabled s2" "\<not> maintenanceMode s2"
    "scheduledMaintenanceWindows s2 = []" "failureCount s2 = 2" "redirectRuleHistory s2 = []"
    using p1 by (simp_all add: s2_def recorded_unhealthy_fields [OF u2])
  have st0: "stored (tCron e1) (durable fresh) = s0"
    by (simp add: fresh_def stored_def s0_def)
  have "\<not> toggle_due config e1 s0"
    using p0 u1 thr by (simp add: toggle_due_def)
  with p0 st0 have w1: "snd (handleScheduled (Inr config) e1 fresh)
      = \<lparr> durable = Some s1, trace = [HealthProbe url] \<rparr>"
    by (simp add: cycle_quiet s1_def fresh_def url_def)
  have w2: "snd (handleScheduled (Inr config) e2 \<lparr> durable = Some s1, trace = [HealthProbe url] \<rparr>)
      = \<lparr> durable = Some s2, trace = [HealthProbe url, HealthProbe url] \<rparr>"
    using p1 u2 thr
    by (simp add: unhealthy_cycle_quiet [where s = s1] s2_def url_def)
  define s3 where "s3 = (recorded e3 s2)
            \<lparr> redirectRuleEnabled := True,
              redirectRuleHistory := cap_history
                 (\<lparr> h_timestamp = tRule e3, h_event = enabled,
                    h_reason = ''Failure threshold reached (''
                       @ string_of_int (failureCountThreshold config) @ '' consecutive failures)'',
                    h_failureCount = failureCount s2 + 1, h_recoveryCount = 0 \<rparr>
                  # redirectRuleHistory s2),
              failureCount := 0, recoveryCount := 0, healthChecksTotal := 0, successesTotal := 0,
              failuresTotal := 0, redirectRuleChangesTotal := 0, apiErrorsTotal := 0 \<rparr>"
  have w3: "snd (handleScheduled (Inr config) e3
                \<lparr> durable = Some s2, trace = [HealthProbe url, HealthProbe url] \<rparr>)
      = \<lparr> durable = Some s3,
          trace = [HealthProbe url, HealthProbe url, HealthProbe url,
                   UpdateRedirectRuleCall (redirectRuleId config) True] @ es \<rparr>"
    using p2 u3 thr l
    by (simp add: unhealthy_cycle_enables [where s = s2 and es = es] s3_def url_def)
  have p3: "\<not> apiCallsDisabled s3" "redirectRuleEnabled s3"
    "map h_failureCount (redirectRuleHistory s3) = [3]"
    using p2 by (simp_all add: s3_def recorded_unhealthy_fields [OF u3] cap_history_def)
  have w4: "snd (handleScheduled (Inr config) e4
                \<lparr> durable = Some s3,
                  trace = [HealthProbe url, HealthProbe url, HealthProbe url,
                   UpdateRedirectRuleCall (redirectRuleId config) True] @ es \<rparr>)
      = \<lparr> durable = Some (recorded e4 s3),
          trace = ([HealthProbe url, HealthProbe url, HealthProbe url,
                   UpdateRedirectRuleCall (redirectRuleId config) True] @ es)
                  @ [HealthProbe url] \<rparr>"
    using p3 u4
    by (simp add: unhealthy_cycle_quiet [where s = s3] url_def)
  from w1 w2 w3 w4 es p3 thr show ?thesis
    by (simp add: toggle_calls_append)
qed

lemma api_ok_update:
  "retry_loop api_ok ruleId en 1 0
     = (Inr True, [ApiGet ruleId, ApiPut ruleId (map (\<lambda>rule. rule\<lparr> r_enabled := en \<rparr>) example_rules)])"
  by (rule retry_loop_success [where u = "()" and k' = 2])
     (simp_all add: attemptUpdate_def api_ok_def response_is_ok_def)

theorem three_unhealthy_probes_enable_once_witness:
  "failureCountThreshold example_config = 3
   \<and> \<not> probe_is_healthy (monitor (example_env (ProbeResponse 503) api_ok 0))
   \<and> fst (retry_loop (cloudflare (example_env (ProbeResponse 503) api_ok 120000))
            (redirectRuleId example_config) True 1 0) = Inr True
   \<and> toggle_calls (trace (run_cycles (Inr example_config)
        [example_env (ProbeResponse 503) api_ok 0,
         example_env (ProbeThrows ''timeout'') api_ok 60000] fresh)) = []
   \<and> toggle_calls (trace (run_cycles (Inr example_config)
        [example_env (ProbeResponse 503) api_ok 0,
         example_env (ProbeThrows ''timeout'') api_ok 60000,
         example_env (ProbeResponse 503) api_ok 120000] fresh)) = [(''rs1'', True)]
   \<and> toggle_calls (trace (run_cycles (Inr example_config)
        [example_env (ProbeResponse 503) api_ok 0,
         example_env (ProbeThrows ''timeout'') api_ok 60000,
         example_env (ProbeResponse 503) api_ok 120000,
         example_env (ProbeResponse 500) api_ok 180000] fresh)) = [(''rs1'', True)]"
proof -
  have h1: "failureCountThreshold example_config = 3"
    by (simp add: example_config_def)
  have h2: "\<not> probe_is_healthy (monitor (example_env (ProbeResponse 503) api_ok 0))"
    "\<not> probe_is_healthy (monitor (example_env (ProbeThrows ''timeout'') api_ok 60000))"
    "\<not> probe_is_healthy (monitor (example_env (ProbeResponse 503) api_ok 120000))"
    "\<not> probe_is_healthy (monitor (example_env (ProbeResponse 500) api_ok 180000))"
    by (simp_all add: example_env_def)
  have h3: "fst (retry_loop (cloudflare (example_env (ProbeResponse 503) api_ok 120000))
            (redirectRuleId example_config) True 1 0) = Inr True"
    by (simp add: example_env_def api_ok_update del: One_nat_def)
  have rid: "redirectRuleId example_config = ''rs1''"
    by (simp add: example_config_def)
  from three_unhealthy_probes_enable_once [OF h1 h2 h3] h1 h2 h3 rid
  show ?thesis by (simp del: One_nat_def run_cycles.simps)
qed

section \<open>The cumulative totals across a successful toggle\<close>

text \<open>
  Claim C3. On a fresh store with failure threshold 3, two unhealthy cycles leave
  \<open>healthChecksTotal = 2\<close> and \<open>failuresTotal = 2\<close>. The third unhealthy cycle
  enables the rule and then calls \<^verbatim>\<open>resetCounters\<close>, whose handler in the Durable
  Object zeroes the cumulative totals too: after it \<open>healthChecksTotal\<close>,
  \<open>failuresTotal\<close> and \<open>redirectRuleChangesTotal\<close> are 0, not 3, 3 and 1.
\<close>

theorem successful_toggle_wipes_cumulative_totals:
  "healthChecksTotal (stored 0 (durable (run_cycles (Inr example_config)
        [example_env (ProbeResponse 503) api_ok 0,
         example_env (ProbeResponse 503) api_ok 60000] fresh))) = 2
   \<and> failuresTotal (stored 0 (durable (run_cycles (Inr example_config)
        [example_env (ProbeResponse 503) api_ok 0,
         example_env (ProbeResponse 503) api_ok 60000] fresh))) = 2
   \<and> redirectRuleEnabled (stored 0 (durable (run_cycles (Inr example_config)
        [example_env (ProbeResponse 503) api_ok 0,
         example_env (ProbeResponse 503) api_ok 60000,
         example_env (ProbeResponse 503) api_ok 120000] fresh)))
   \<and> healthChecksTotal (stored 0 (durable (run_cycles (Inr example_config)
        [example_env (ProbeResponse 503) api_ok 0,
         example_env (ProbeResponse 503) api_ok 60000,
         example_env (ProbeResponse 503) api_ok 120000] fresh))) = 0
   \<and> failuresTotal (stored 0 (durable (run_cycles (Inr example_config)
        [example_env (ProbeResponse 503) api_ok 0,
         example_env (ProbeResponse 503) api_ok 60000,
         example_env (ProbeResponse 503) api_ok 120000] fresh))) = 0
   \<and> redirectRuleChangesTotal (stored 0 (durable (run_cycles (Inr example_config)
        [example_env (ProbeResponse 503) api_ok 0,
         example_env (ProbeResponse 503) api_ok 60000,
         example_env (ProbeResponse 503) api_ok 120000] fresh))) = 0"
  by (simp add: fresh_def example_env_def example_config_def handleScheduled_def tryCatch_def
      andThen_def return_def healthCheck_def emit_def discard_def updateRedirectRule_def
      api_ok_update maintenanceModeActive_def stored_def defaultState_def cap_history_def
      run_updateCronExecution run_cleanMaintenanceWindows run_sm_getState
      run_incrementFailure run_incrementRecovery run_updateRedirectRuleState
      run_resetCounters run_incrementApiErrors run_disableApiCalls del: One_nat_def)

section \<open>The simulation endpoints and the latch\<close>

text \<open>
  Claim C4. On a store whose \<open>apiCallsDisabled\<close> is set, a scheduled cycle leaves
  no trace at all: no probe, no call of the Rule Controller (and, by \<open>cycle_latched\<close>,
  it writes nothing but the cron time and the swept windows). The handler of
  \<^verbatim>\<open>POST /simulate-failover\<close> on the same store calls \<^verbatim>\<open>updateRedirectRule\<close>
  all the same, the requests go out, and the rule is recorded as enabled while the latch
  is still set.
\<close>

theorem simulate_failover_ignores_latch:
  "apiCallsDisabled (stored 0 (durable latched_world))
   \<and> trace (snd (handleScheduled (Inr example_config)
                  (example_env (ProbeResponse 503) api_ok 60000) latched_world)) = []
   \<and> trace (snd (simulateFailoverHandler (Inr example_config)
                  (example_request api_ok 60000) latched_world))
       = [UpdateRedirectRuleCall ''rs1'' True, ApiGet ''rs1'',
          ApiPut ''rs1'' (map (\<lambda>rule. rule\<lparr> r_enabled := True \<rparr>) example_rules)]
   \<and> redirectRuleEnabled (stored 0 (durable (snd (simulateFailoverHandler (Inr example_config)
                  (example_request api_ok 60000) latched_world))))
   \<and> apiCallsDisabled (stored 0 (durable (snd (simulateFailoverHandler (Inr example_config)
                  (example_request api_ok 60000) latched_world))))"
proof -
  have a: "apiCallsDisabled (stored 0 (durable latched_world))"
    by (simp add: latched_world_def)
  have b: "trace (snd (handleScheduled (Inr example_config)
                  (example_env (ProbeResponse 503) api_ok 60000) latched_world)) = []"
    by (simp add: cycle_latched latched_world_def)
  have c: "trace (snd (simulateFailoverHandler (Inr example_config)
                  (example_request api_ok 60000) latched_world))
       = [UpdateRedirectRuleCall ''rs1'' True, ApiGet ''rs1'',
          ApiPut ''rs1'' (map (\<lambda>rule. rule\<lparr> r_enabled := True \<rparr>) example_rules)]"
    by (simp add: simulateFailoverHandler_trace api_ok_update example_request_def
        example_config_def latched_world_def del: One_nat_def)
  have d: "redirectRuleEnabled (stored 0 (durable (snd (simulateFailoverHandler (Inr example_config)
                  (example_request api_ok 60000) latched_world))))
      \<and> apiCallsDisabled (stored 0 (durable (snd (simulateFailoverHandler (Inr example_config)
                  (example_request api_ok 60000) latched_world))))"
    by (simp add: simulateFailoverHandler_def tryCatch_def andThen_def return_def
        updateRedirectRule_def api_ok_update example_request_def latched_world_def
        run_simulateFailover run_updateRedirectRuleState run_resetCounters del: One_nat_def)
  from a b c d show ?thesis by simp
qed

section \<open>The simulation endpoints and maintenance\<close>

text \<open>
  Claim C10. Whatever the stored state, so whatever the maintenance mode and the
  scheduled windows, the handler of \<^verbatim>\<open>POST /simulate-failover\<close> calls
  \<^verbatim>\<open>updateRedirectRule\<close> exactly once, to enable, and the handler of
  \<^verbatim>\<open>POST /simulate-recovery\<close> exactly once, to disable; the call sends at least its
  first GET to the Cloudflare API. (The configuration is the validated one and
  the Durable Object is reachable.)
\<close>

theorem simulate_endpoints_ignore_maintenance:
  "toggle_calls (trace (snd (simulateFailoverHandler (Inr config) env w)))
     = toggle_calls (trace w) @ [(redirectRuleId config, True)]
   \<and> toggle_calls (trace (snd (simulateRecoveryHandler (Inr config) env' w)))
     = toggle_calls (trace w) @ [(redirectRuleId config, False)]
   \<and> (\<exists>es. trace (snd (simulateFailoverHandler (Inr config) env w))
         = trace w @ UpdateRedirectRuleCall (redirectRuleId config) True
             # ApiGet (redirectRuleId config) # es)
   \<and> (\<exists>es. trace (snd (simulateRecoveryHandler (Inr config) env' w))
         = trace w @ UpdateRedirectRuleCall (redirectRuleId config) False
             # ApiGet (redirectRuleId config) # es)"
proof -
  have "toggle_calls (trace (snd (simulateFailoverHandler (Inr config) env w)))
       = toggle_calls (trace w) @ [(redirectRuleId config, True)]"
    by (simp add: simulateFailoverHandler_trace toggle_calls_append retry_loop_no_calls
        del: One_nat_def)
  moreover have "toggle_calls (trace (snd (simulateRecoveryHandler (Inr config) env' w)))
       = toggle_calls (trace w) @ [(redirectRuleId config, False)]"
    by (simp add: simulateRecoveryHandler_trace toggle_calls_append retry_loop_no_calls
        del: One_nat_def)
  moreover have "\<exists>es. trace (snd (simulateFailoverHandler (Inr config) env w))
         = trace w @ UpdateRedirectRuleCall (redirectRuleId config) True
             # ApiGet (redirectRuleId config) # es"
    using retry_loop_starts_with_get [of "cf_api env" "redirectRuleId config" True]
    by (auto simp: simulateFailoverHandler_trace simp del: One_nat_def)
  moreover have "\<exists>es. trace (snd (simulateRecoveryHandler (Inr config) env' w))
         = trace w @ UpdateRedirectRuleCall (redirectRuleId config) False
             # ApiGet (redirectRuleId config) # es"
    using retry_loop_starts_with_get [of "cf_api env'" "redirectRuleId config" False]
    by (auto simp: simulateRecoveryHandler_trace simp del: One_nat_def)
  ultimately show ?thesis by blast
qed

section \<open>The collection the Rule Controller submits\<close>

lemma attemptUpdate_submitted:
  "attemptUpdate api ruleId en k = (r, es, k') \<Longrightarrow>
   \<forall>put \<in> set (submitted es). map r_enabled put = replicate (length put) en"
  by (auto simp: attemptUpdate_def comp_def map_replicate_const
      split: fetch_result.splits sum.splits if_splits)

lemma submitted_append: "submitted (a @ b) = submitted a @ submitted b"
  by (induction a rule: submitted.induct) simp_all

lemma retry_loop_submitted:
  "\<forall>put \<in> set (submitted (snd (retry_loop api ruleId en attempt k))).
      map r_enabled put = replicate (length put) en"
proof (induction "4 - attempt" arbitrary: attempt k)
  case 0
  then have "\<not> attempt \<le> 3" by simp
  then have "retry_loop api ruleId en attempt k = (Inr False, [])"
    by (subst retry_loop.simps) simp
  then show ?case by simp
next
  case (Suc n)
  then have le: "attempt \<le> 3" by simp
  obtain r es k' where a: "attemptUpdate api ruleId en k = (r, es, k')"
    by (cases "attemptUpdate api ruleId en k") auto
  note ev = attemptUpdate_submitted [OF a]
  show ?case
  proof (cases r)
    case (Inr u)
    with a le have "retry_loop api ruleId en attempt k = (Inr True, es)"
      by (intro retry_loop_success) simp_all
    with ev show ?thesis by simp
  next
    case (Inl m)
    show ?thesis
    proof (cases "m = ''AUTHENTICATION_FAILED''")
      case True
      with a le Inl have "retry_loop api ruleId en attempt k = (Inl ''AUTHENTICATION_FAILED'', es)"
        by (intro retry_loop_auth) simp_all
      with ev show ?thesis by simp
    next
      case False
      from Suc.hyps(2) have "n = 4 - (attempt + 1)" by simp
      then have ih: "\<forall>put \<in> set (submitted (snd (retry_loop api ruleId en (attempt + 1) k'))).
          map r_enabled put = replicate (length put) en"
        by (rule Suc.hyps(1))
      from a Inl False le have "snd (retry_loop api ruleId en attempt k)
          = es @ (if attempt < 3 then [Delay (2 ^ (attempt - 1) * 1000)] else [])
               @ snd (retry_loop api ruleId en (attempt + 1) k')"
        by (subst retry_loop.simps) (simp split: prod.splits)
      with ev ih show ?thesis
        by (auto simp: submitted_append)
    qed
  qed
qed

text \<open>
  Claim C8, amended. An attempt whose GET is answered ok with the rules \<open>rules\<close> submits
  exactly one collection: \<open>rules\<close> with the \<^verbatim>\<open>enabled\<close> flag of every rule set to the
  requested value, the identifiers, the other fields and the order as fetched. Every
  collection a call of \<^verbatim>\<open>updateRedirectRule\<close> submits, at any attempt, has all its
  flags at the requested value.
\<close>

theorem update_overwrites_every_rule:
  "(api k = Response status statusText (Inr rules) \<and> response_is_ok status \<longrightarrow>
      submitted (fst (snd (attemptUpdate api ruleId en k)))
        = [map (\<lambda>rule. rule\<lparr> r_enabled := en \<rparr>) rules]
      \<and> map r_enabled (map (\<lambda>rule. rule\<lparr> r_enabled := en \<rparr>) rules) = replicate (length rules) en
      \<and> map r_id (map (\<lambda>rule. rule\<lparr> r_enabled := en \<rparr>) rules) = map r_id rules
      \<and> map r_fields (map (\<lambda>rule. rule\<lparr> r_enabled := en \<rparr>) rules) = map r_fields rules)
   \<and> (\<forall>put \<in> set (submitted (snd (retry_loop api ruleId en 1 0))).
        map r_enabled put = replicate (length put) en)"
proof -
  have "submitted (fst (snd (attemptUpdate api ruleId en k)))
        = [map (\<lambda>rule. rule\<lparr> r_enabled := en \<rparr>) rules]"
    if "api k = Response status statusText (Inr rules)" "response_is_ok status"
    using that by (simp add: attemptUpdate_def split: fetch_result.splits)
  moreover have "map r_enabled (map (\<lambda>rule. rule\<lparr> r_enabled := en \<rparr>) rules) = replicate (length rules) en"
    by (simp add: comp_def map_replicate_const)
  moreover have "map r_id (map (\<lambda>rule. rule\<lparr> r_enabled := en \<rparr>) rules) = map r_id rules"
    "map r_fields (map (\<lambda>rule. rule\<lparr> r_enabled := en \<rparr>) rules) = map r_fields rules"
    by (simp_all add: comp_def)
  ultimately show ?thesis
    using retry_loop_submitted [of api ruleId en 1 0] by (simp del: One_nat_def)
qed

theorem update_overwrites_every_rule_witness:
  "api_ok 0 = Response 200 ''OK'' (Inr example_rules) \<and> response_is_ok 200
   \<and> submitted (fst (snd (attemptUpdate api_ok ''rs1'' True 0)))
       = [[\<lparr> r_id = ''r1'', r_enabled = True, r_fields = [(''action'', ''redirect'')] \<rparr>,
           \<lparr> r_id = ''r2'', r_enabled = True, r_fields = [(''action'', ''rewrite'')] \<rparr>]]
   \<and> submitted (snd (retry_loop api_ok ''rs1'' True 1 0))
       = [[\<lparr> r_id = ''r1'', r_enabled = True, r_fields = [(''action'', ''redirect'')] \<rparr>,
           \<lparr> r_id = ''r2'', r_enabled = True, r_fields = [(''action'', ''rewrite'')] \<rparr>]]"
proof -
  have h: "api_ok 0 = Response 200 ''OK'' (Inr example_rules)" "response_is_ok 200"
    by (simp_all add: api_ok_def response_is_ok_def)
  have s: "submitted (snd (retry_loop api_ok ''rs1'' True 1 0))
       = [[\<lparr> r_id = ''r1'', r_enabled = True, r_fields = [(''action'', ''redirect'')] \<rparr>,
           \<lparr> r_id = ''r2'', r_enabled = True, r_fields = [(''action'', ''rewrite'')] \<rparr>]]"
    by (simp add: api_ok_update example_rules_def del: One_nat_def)
  from update_overwrites_every_rule [of api_ok 0 200 "''OK''" example_rules "''rs1''" True] h s
  show ?thesis by (simp add: example_rules_def del: One_nat_def)
qed

text \<open>
  Claim C8 as stated fails: the ruleset answered holds the rules \<open>r1\<close> and \<open>r2\<close>, both
  disabled; enabling with target \<open>r1\<close> ought to re-submit \<open>r2\<close> disabled, and the code
  submits it enabled.
\<close>

theorem only_target_rule_overwritten_counterexample:
  "\<not> (submitted (snd (retry_loop api_ok ''r1'' True 1 0))
        = [spec_overwrite_target ''r1'' True example_rules])
   \<and> map (\<lambda>r. (r_id r, r_enabled r)) example_rules = [(''r1'', False), (''r2'', False)]
   \<and> map (map (\<lambda>r. (r_id r, r_enabled r))) (submitted (snd (retry_loop api_ok ''r1'' True 1 0)))
       = [[(''r1'', True), (''r2'', True)]]"
  by (simp add: api_ok_update example_rules_def spec_overwrite_target_def del: One_nat_def)

section \<open>Maintenance suppression\<close>

lemma some_iff:
  "some (in_window now) ws
     = (\<exists>w \<in> set ws. \<exists>a b. w_startTime w = Some a \<and> w_endTime w = Some b \<and> a \<le> now \<and> now \<le> b)"
proof (induction ws)
  case Nil
  then show ?case by simp
next
  case (Cons w ws)
  have "in_window now w
      = (\<exists>a b. w_startTime w = Some a \<and> w_endTime w = Some b \<and> a \<le> now \<and> now \<le> b)"
    by (cases "w_startTime w"; cases "w_endTime w") (simp_all add: in_window_def)
  with Cons show ?case by auto
qed

lemma suppressed_cycle:
  assumes "durable w = Some s" "\<not> apiCallsDisabled s"
    and "maintenanceModeActive (cycle_state env s) (tNow env)"
  shows "snd (handleScheduled (Inr config) env w)
     = w\<lparr> durable := Some (recorded env s), trace := trace w @ [HealthProbe (monitorUrl config)] \<rparr>"
proof -
  from assms have "\<not> toggle_due config env (stored (tCron env) (durable w))"
    by (simp add: toggle_due_def)
  with assms show ?thesis by (simp add: cycle_quiet)
qed

lemma recorded_common_fields:
  "redirectRuleEnabled (recorded env s) = redirectRuleEnabled s"
  "apiCallsDisabled (recorded env s) = apiCallsDisabled s"
  "maintenanceMode (recorded env s) = maintenanceMode s"
  "redirectRuleHistory (recorded env s) = redirectRuleHistory s"
  "healthChecksTotal (recorded env s) = healthChecksTotal s + 1"
  "failureCount (recorded env s) = (if probe_is_healthy (monitor env) then 0 else failureCount s + 1)"
  "recoveryCount (recorded env s) = (if probe_is_healthy (monitor env) then recoveryCount s + 1 else 0)"
  by (cases "probe_is_healthy (monitor env)";
      simp add: recorded_healthy_fields recorded_unhealthy_fields)+

lemma maintenance_run:
  "durable w = Some s \<Longrightarrow> \<not> apiCallsDisabled s \<Longrightarrow> maintenanceMode s \<Longrightarrow>
   \<exists>s'. durable (run_cycles (Inr config) envs w) = Some s'
      \<and> \<not> apiCallsDisabled s' \<and> maintenanceMode s'
      \<and> toggle_calls (trace (run_cycles (Inr config) envs w)) = toggle_calls (trace w)
      \<and> probes (trace (run_cycles (Inr config) envs w)) = probes (trace w) + length envs
      \<and> redirectRuleHistory s' = redirectRuleHistory s
      \<and> redirectRuleEnabled s' = redirectRuleEnabled s
      \<and> healthChecksTotal s' = healthChecksTotal s + int (length envs)
      \<and> ((\<forall>e \<in> set envs. \<not> probe_is_healthy (monitor e))
           \<longrightarrow> failureCount s' = failureCount s + int (length envs))"
proof (induction envs arbitrary: w s)
  case Nil
  then show ?case by simp
next
  case (Cons env envs)
  have act: "maintenanceModeActive (cycle_state env s) (tNow env)"
    using Cons.prems by (simp add: maintenanceModeActive_def cycle_state_def)
  have step: "snd (handleScheduled (Inr config) env w)
     = w\<lparr> durable := Some (recorded env s), trace := trace w @ [HealthProbe (monitorUrl config)] \<rparr>"
    using Cons.prems act by (intro suppressed_cycle) simp_all
  have "durable (snd (handleScheduled (Inr config) env w)) = Some (recorded env s)"
    "\<not> apiCallsDisabled (recorded env s)" "maintenanceMode (recorded env s)"
    using Cons.prems by (simp_all add: step recorded_common_fields)
  from Cons.IH [OF this] obtain s' where
    s': "durable (run_cycles (Inr config) envs (snd (handleScheduled (Inr config) env w))) = Some s'"
      "\<not> apiCallsDisabled s'" "maintenanceMode s'"
      "toggle_calls (trace (run_cycles (Inr config) envs (snd (handleScheduled (Inr config) env w))))
         = toggle_calls (trace (snd (handleScheduled (Inr config) env w)))"
      "probes (trace (run_cycles (Inr config) envs (snd (handleScheduled (Inr config) env w))))
         = probes (trace (snd (handleScheduled (Inr config) env w))) + length envs"
      "redirectRuleHistory s' = redirectRuleHistory (recorded env s)"
      "redirectRuleEnabled s' = redirectRuleEnabled (recorded env s)"
      "healthChecksTotal s' = healthChecksTotal (recorded env s) + int (length envs)"
      "(\<forall>e \<in> set envs. \<not> probe_is_healthy (monitor e))
           \<longrightarrow> failureCount s' = failureCount (recorded env s) + int (length envs)"
    by blast
  show ?case
    using s' by (auto simp: step recorded_common_fields toggle_calls_append probes_append)
qed

text \<open>
  Claim C7. A cycle on a store without latch that reads suppression as active (the flag,
  or \<open>now\<close> within a window that the sweep left) leaves one probe in the trace and
  nothing else: no call of the Rule Controller, no history entry; its counters are the
  ones the probe commands. With the flag set, any sequence of unhealthy cycles calls the
  Rule Controller not at all, writes no history entry, probes once per cycle, and raises
  the failure counter by one per cycle, past any threshold. Suppression is the flag or
  the membership of \<open>now\<close> in the closed interval of some scheduled window.
\<close>

theorem suppression_withholds_the_toggle:
  "(durable w = Some s \<and> \<not> apiCallsDisabled s
      \<and> maintenanceModeActive (cycle_state env s) (tNow env) \<longrightarrow>
      trace (snd (handleScheduled (Inr config) env w)) = trace w @ [HealthProbe (monitorUrl config)]
    \<and> toggle_calls (trace (snd (handleScheduled (Inr config) env w))) = toggle_calls (trace w)
    \<and> redirectRuleHistory (stored 0 (durable (snd (handleScheduled (Inr config) env w))))
        = redirectRuleHistory s
    \<and> failureCount (stored 0 (durable (snd (handleScheduled (Inr config) env w))))
        = (if probe_is_healthy (monitor env) then 0 else failureCount s + 1)
    \<and> recoveryCount (stored 0 (durable (snd (handleScheduled (Inr config) env w))))
        = (if probe_is_healthy (monitor env) then recoveryCount s + 1 else 0))
   \<and> (durable w = Some s \<and> \<not> apiCallsDisabled s \<and> maintenanceMode s
      \<and> (\<forall>e \<in> set envs. \<not> probe_is_healthy (monitor e)) \<longrightarrow>
      toggle_calls (trace (run_cycles (Inr config) envs w)) = toggle_calls (trace w)
    \<and> probes (trace (run_cycles (Inr config) envs w)) = probes (trace w) + length envs
    \<and> redirectRuleHistory (stored 0 (durable (run_cycles (Inr config) envs w)))
        = redirectRuleHistory s
    \<and> failureCount (stored 0 (durable (run_cycles (Inr config) envs w)))
        = failureCount s + int (length envs))
   \<and> maintenanceModeActive st now
       = (maintenanceMode st
          \<or> (\<exists>win \<in> set (scheduledMaintenanceWindows st).
               \<exists>a b. w_startTime win = Some a \<and> w_endTime win = Some b \<and> a \<le> now \<and> now \<le> b))"
proof -
  have one: "trace (snd (handleScheduled (Inr config) env w)) = trace w @ [HealthProbe (monitorUrl config)]
    \<and> toggle_calls (trace (snd (handleScheduled (Inr config) env w))) = toggle_calls (trace w)
    \<and> redirectRuleHistory (stored 0 (durable (snd (handleScheduled (Inr config) env w))))
        = redirectRuleHistory s
    \<and> failureCount (stored 0 (durable (snd (handleScheduled (Inr config) env w))))
        = (if probe_is_healthy (monitor env) then 0 else failureCount s + 1)
    \<and> recoveryCount (stored 0 (durable (snd (handleScheduled (Inr config) env w))))
        = (if probe_is_healthy (monitor env) then recoveryCount s + 1 else 0)"
    if "durable w = Some s" "\<not> apiCallsDisabled s"
      "maintenanceModeActive (cycle_state env s) (tNow env)"
    using suppressed_cycle [OF that, of config]
    by (simp add: recorded_common_fields toggle_calls_append)
  have many: "toggle_calls (trace (run_cycles (Inr config) envs w)) = toggle_calls (trace w)
    \<and> probes (trace (run_cycles (Inr config) envs w)) = probes (trace w) + length envs
    \<and> redirectRuleHistory (stored 0 (durable (run_cycles (Inr config) envs w)))
        = redirectRuleHistory s
    \<and> failureCount (stored 0 (durable (run_cycles (Inr config) envs w)))
        = failureCount s + int (length envs)"
    if "durable w = Some s" "\<not> apiCallsDisabled s" "maintenanceMode s"
      "\<forall>e \<in> set envs. \<not> probe_is_healthy (monitor e)"
    using maintenance_run [OF that(1,2,3), of config envs] that(4) by auto
  have iff: "maintenanceModeActive st now
       = (maintenanceMode st
          \<or> (\<exists>win \<in> set (scheduledMaintenanceWindows st).
               \<exists>a b. w_startTime win = Some a \<and> w_endTime win = Some b \<and> a \<le> now \<and> now \<le> b))"
    by (simp add: maintenanceModeActive_def some_iff)
  from one many iff show ?thesis by blast
qed

theorem suppression_withholds_the_toggle_witness:
  "maintenanceModeActive (cycle_state (example_env (ProbeResponse 503) api_ok 60000)
       (stored 0 (durable window_world))) 60002
   \<and> failureCount (stored 0 (durable window_world)) + 1 \<ge> failureCountThreshold example_config
   \<and> trace (snd (handleScheduled (Inr example_config)
        (example_env (ProbeResponse 503) api_ok 60000) window_world))
       = [HealthProbe ''https://example.com/health'']
   \<and> redirectRuleHistory (stored 0 (durable (snd (handleScheduled (Inr example_config)
        (example_env (ProbeResponse 503) api_ok 60000) window_world)))) = []
   \<and> failureCount (stored 0 (durable (snd (handleScheduled (Inr example_config)
        (example_env (ProbeResponse 503) api_ok 60000) window_world)))) = 3
   \<and> maintenanceMode (stored 0 (durable maintenance_world))
   \<and> toggle_calls (trace (run_cycles (Inr example_config)
        [example_env (ProbeResponse 503) api_ok 60000,
         example_env (ProbeThrows ''timeout'') api_ok 120000] maintenance_world)) = []
   \<and> redirectRuleHistory (stored 0 (durable (run_cycles (Inr example_config)
        [example_env (ProbeResponse 503) api_ok 60000,
         example_env (ProbeThrows ''timeout'') api_ok 120000] maintenance_world))) = []
   \<and> failureCount (stored 0 (durable (run_cycles (Inr example_config)
        [example_env (ProbeResponse 503) api_ok 60000,
         example_env (ProbeThrows ''timeout'') api_ok 120000] maintenance_world))) = 4"
proof -
  define sw where "sw = (defaultState 0)
         \<lparr> failureCount := 2,
           scheduledMaintenanceWindows :=
             [\<lparr> w_id = ''w1'', w_startTime = Some 0, w_endTime = Some 120000,
                w_reason = None \<rparr>] \<rparr>"
  define sm where "sm = (defaultState 0)\<lparr> failureCount := 2, maintenanceMode := True \<rparr>"
  have w: "durable window_world = Some sw" "\<not> apiCallsDisabled sw" "failureCount sw = 2"
    "redirectRuleHistory sw = []" "trace window_world = []"
    by (simp_all add: window_world_def sw_def defaultState_def)
  have act: "maintenanceModeActive (cycle_state (example_env (ProbeResponse 503) api_ok 60000) sw)
      (tNow (example_env (ProbeResponse 503) api_ok 60000))"
    by (simp add: maintenanceModeActive_def cycle_state_def example_env_def sw_def
        defaultState_def in_window_def)
  have m: "durable maintenance_world = Some sm" "\<not> apiCallsDisabled sm" "maintenanceMode sm"
    "failureCount sm = 2" "redirectRuleHistory sm = []" "trace maintenance_world = []"
    by (simp_all add: maintenance_world_def sm_def defaultState_def)
  have u: "\<forall>e \<in> set [example_env (ProbeResponse 503) api_ok 60000,
         example_env (ProbeThrows ''timeout'') api_ok 120000]. \<not> probe_is_healthy (monitor e)"
    by (simp add: example_env_def)
  have c: "failureCountThreshold example_config = 3" "monitorUrl example_config = ''https://example.com/health''"
    "tNow (example_env (ProbeResponse 503) api_ok 60000) = 60002"
    "\<not> probe_is_healthy (monitor (example_env (ProbeResponse 503) api_ok 60000))"
    by (simp_all add: example_config_def example_env_def)
  from suppression_withholds_the_toggle [of window_world sw
      "example_env (ProbeResponse 503) api_ok 60000" example_config]
    w act c
  have p1: "trace (snd (handleScheduled (Inr example_config)
        (example_env (ProbeResponse 503) api_ok 60000) window_world))
       = [HealthProbe ''https://example.com/health'']
   \<and> redirectRuleHistory (stored 0 (durable (snd (handleScheduled (Inr example_config)
        (example_env (ProbeResponse 503) api_ok 60000) window_world)))) = []
   \<and> failureCount (stored 0 (durable (snd (handleScheduled (Inr example_config)
        (example_env (ProbeResponse 503) api_ok 60000) window_world)))) = 3"
    by simp
  from suppression_withholds_the_toggle [of maintenance_world sm _ example_config
      "[example_env (ProbeResponse 503) api_ok 60000,
         example_env (ProbeThrows ''timeout'') api_ok 120000]"]
    m u
  have p2: "toggle_calls (trace (run_cycles (Inr example_config)
        [example_env (ProbeResponse 503) api_ok 60000,
         example_env (ProbeThrows ''timeout'') api_ok 120000] maintenance_world)) = []
   \<and> redirectRuleHistory (stored 0 (durable (run_cycles (Inr example_config)
        [example_env (ProbeResponse 503) api_ok 60000,
         example_env (ProbeThrows ''timeout'') api_ok 120000] maintenance_world))) = []
   \<and> failureCount (stored 0 (durable (run_cycles (Inr example_config)
        [example_env (ProbeResponse 503) api_ok 60000,
         example_env (ProbeThrows ''timeout'') api_ok 120000] maintenance_world))) = 4"
    by (simp del: run_cycles.simps)
  from p1 p2 w m act c show ?thesis by (simp del: run_cycles.simps)
qed

section \<open>Authentication failure\<close>

lemma auth_failure_ends_loop:
  assumes "attempt \<le> 3" "observes_auth_failure api k"
  shows "retry_loop api ruleId en attempt k
     = (Inl ''AUTHENTICATION_FAILED'', fst (snd (attemptUpdate api ruleId en k)))"
proof -
  obtain r es k' where a: "attemptUpdate api ruleId en k = (r, es, k')"
    by (cases "attemptUpdate api ruleId en k") auto
  with observed_auth_failure [OF assms(2), of ruleId en]
  have "attemptUpdate api ruleId en k = (Inl ''AUTHENTICATION_FAILED'', es, k')"
    by simp
  with assms(1) a show ?thesis
    by (simp add: retry_loop_auth)
qed

lemma cycle_auth_failure:
  assumes "durable w = Some s" "toggle_due config env s"
    and "fst (retry_loop (cloudflare env) (redirectRuleId config)
              (\<not> probe_is_healthy (monitor env)) 1 0) = Inl ''AUTHENTICATION_FAILED''"
  shows "snd (handleScheduled (Inr config) env w)
     = w\<lparr> durable := Some ((recorded env s)\<lparr> apiCallsDisabled := True \<rparr>),
          trace := trace w @ HealthProbe (monitorUrl config)
             # UpdateRedirectRuleCall (redirectRuleId config) (\<not> probe_is_healthy (monitor env))
             # snd (retry_loop (cloudflare env) (redirectRuleId config)
                      (\<not> probe_is_healthy (monitor env)) 1 0) \<rparr>"
proof -
  obtain es where l: "retry_loop (cloudflare env) (redirectRuleId config)
      (\<not> probe_is_healthy (monitor env)) 1 0 = (Inl ''AUTHENTICATION_FAILED'', es)"
    using assms(3)
    by (cases "retry_loop (cloudflare env) (redirectRuleId config)
      (\<not> probe_is_healthy (monitor env)) 1 0") auto
  from assms have due: "toggle_due config env (stored (tCron env) (durable w))"
    by simp
  show ?thesis
    using assms(1)
    by (simp add: cycle_reaches_toggle [OF due l] l run_disableApiCalls del: One_nat_def)
qed

lemma cycle_exhausted_retries:
  assumes "durable w = Some s" "toggle_due config env s"
    and "fst (retry_loop (cloudflare env) (redirectRuleId config)
              (\<not> probe_is_healthy (monitor env)) 1 0) = Inr False"
  shows "snd (handleScheduled (Inr config) env w)
     = w\<lparr> durable := Some ((recorded env s)\<lparr> apiErrorsTotal := apiErrorsTotal s + 1 \<rparr>),
          trace := trace w @ HealthProbe (monitorUrl config)
             # UpdateRedirectRuleCall (redirectRuleId config) (\<not> probe_is_healthy (monitor env))
             # snd (retry_loop (cloudflare env) (redirectRuleId config)
                      (\<not> probe_is_healthy (monitor env)) 1 0) \<rparr>"
proof -
  obtain es where l: "retry_loop (cloudflare env) (redirectRuleId config)
      (\<not> probe_is_healthy (monitor env)) 1 0 = (Inr False, es)"
    using assms(3)
    by (cases "retry_loop (cloudflare env) (redirectRuleId config)
      (\<not> probe_is_healthy (monitor env)) 1 0") auto
  from assms have due: "toggle_due config env (stored (tCron env) (durable w))"
    by simp
  have "apiErrorsTotal (recorded env s) = apiErrorsTotal s"
    by (cases "probe_is_healthy (monitor env)")
       (simp_all add: recorded_healthy_fields recorded_unhealthy_fields)
  then show ?thesis
    using assms(1)
    by (simp add: cycle_reaches_toggle [OF due l] l run_incrementApiErrors del: One_nat_def)
qed

text \<open>
  Claim C5. When an attempt of \<^verbatim>\<open>updateRedirectRule\<close>, the first, second or third, is
  answered 401 or 403 at its GET or at its PUT, the call throws
  \<^verbatim>\<open>AUTHENTICATION_FAILED\<close> there: the requests of that attempt are its last ones, with
  no delay and no further attempt, and the outcome is not the \<^verbatim>\<open>false\<close> of exhausted
  retries. A scheduled cycle that reaches the call and sees it throw so sets
  \<open>apiCallsDisabled\<close> and leaves \<open>apiErrorsTotal\<close> as it was; a cycle whose call
  returns \<^verbatim>\<open>false\<close> increments \<open>apiErrorsTotal\<close> and does not set the latch.
\<close>

theorem auth_failure_aborts_and_latches:
  "(attempt \<le> 3 \<and> observes_auth_failure api k \<longrightarrow>
      retry_loop api ruleId en attempt k
        = (Inl ''AUTHENTICATION_FAILED'', fst (snd (attemptUpdate api ruleId en k)))
      \<and> api_gets (fst (snd (attemptUpdate api ruleId en k))) = 1
      \<and> delays (fst (snd (attemptUpdate api ruleId en k))) = [])
   \<and> (durable w = Some s \<and> toggle_due config env s
      \<and> fst (retry_loop (cloudflare env) (redirectRuleId config)
                (\<not> probe_is_healthy (monitor env)) 1 0) = Inl ''AUTHENTICATION_FAILED'' \<longrightarrow>
      apiCallsDisabled (stored 0 (durable (snd (handleScheduled (Inr config) env w))))
      \<and> apiErrorsTotal (stored 0 (durable (snd (handleScheduled (Inr config) env w))))
          = apiErrorsTotal s)
   \<and> (durable w = Some s \<and> toggle_due config env s
      \<and> fst (retry_loop (cloudflare env) (redirectRuleId config)
                (\<not> probe_is_healthy (monitor env)) 1 0) = Inr False \<longrightarrow>
      \<not> apiCallsDisabled (stored 0 (durable (snd (handleScheduled (Inr config) env w))))
      \<and> apiErrorsTotal (stored 0 (durable (snd (handleScheduled (Inr config) env w))))
          = apiErrorsTotal s + 1)"
proof -
  have a: "retry_loop api ruleId en attempt k
        = (Inl ''AUTHENTICATION_FAILED'', fst (snd (attemptUpdate api ruleId en k)))
      \<and> api_gets (fst (snd (attemptUpdate api ruleId en k))) = 1
      \<and> delays (fst (snd (attemptUpdate api ruleId en k))) = []"
    if "attempt \<le> 3" "observes_auth_failure api k"
  proof -
    obtain r es k' where at: "attemptUpdate api ruleId en k = (r, es, k')"
      by (cases "attemptUpdate api ruleId en k") auto
    from attemptUpdate_events [OF at] at auth_failure_ends_loop [OF that, of ruleId en]
    show ?thesis by simp
  qed
  have b: "apiCallsDisabled (stored 0 (durable (snd (handleScheduled (Inr config) env w))))
      \<and> apiErrorsTotal (stored 0 (durable (snd (handleScheduled (Inr config) env w))))
          = apiErrorsTotal s"
    if "durable w = Some s" "toggle_due config env s"
      "fst (retry_loop (cloudflare env) (redirectRuleId config)
                (\<not> probe_is_healthy (monitor env)) 1 0) = Inl ''AUTHENTICATION_FAILED''"
  proof -
    have "apiErrorsTotal (recorded env s) = apiErrorsTotal s"
      by (cases "probe_is_healthy (monitor env)")
         (simp_all add: recorded_healthy_fields recorded_unhealthy_fields)
    then show ?thesis
      by (simp add: cycle_auth_failure [OF that] del: One_nat_def)
  qed
  have c: "\<not> apiCallsDisabled (stored 0 (durable (snd (handleScheduled (Inr config) env w))))
      \<and> apiErrorsTotal (stored 0 (durable (snd (handleScheduled (Inr config) env w))))
          = apiErrorsTotal s + 1"
    if "durable w = Some s" "toggle_due config env s"
      "fst (retry_loop (cloudflare env) (redirectRuleId config)
                (\<not> probe_is_healthy (monitor env)) 1 0) = Inr False"
  proof -
    from that(2) have "\<not> apiCallsDisabled s"
      by (simp add: toggle_due_def)
    then show ?thesis
      by (simp add: cycle_exhausted_retries [OF that] recorded_common_fields del: One_nat_def)
  qed
  from a b c show ?thesis by blast
qed

lemma api_forbidden_second_update:
  "retry_loop api_forbidden_second ''rs1'' True 1 0
     = (Inl ''AUTHENTICATION_FAILED'', [ApiGet ''rs1'', Delay 1000, ApiGet ''rs1''])"
proof -
  have 1: "attemptUpdate api_forbidden_second ''rs1'' True 0
      = (Inl ''HTTP 502: Bad Gateway'', [ApiGet ''rs1''], 1)"
    by (simp add: attemptUpdate_def api_forbidden_second_def api_down_def response_is_ok_def
        not_ok_error_def string_of_nat.simps)
  have 2: "attemptUpdate api_forbidden_second ''rs1'' True 1
      = (Inl ''AUTHENTICATION_FAILED'', [ApiGet ''rs1''], 2)"
    by (simp add: attemptUpdate_def api_forbidden_second_def response_is_ok_def not_ok_error_def)
  have "retry_loop api_forbidden_second ''rs1'' True 2 1
      = (Inl ''AUTHENTICATION_FAILED'', [ApiGet ''rs1''])"
    using 2 by (intro retry_loop_auth) simp_all
  with first_attempt_transient [OF 1] show ?thesis
    by (simp del: One_nat_def)
qed

lemma api_down_update:
  "retry_loop api_down ''rs1'' True 1 0
     = (Inr False, [ApiGet ''rs1'', Delay 1000, ApiGet ''rs1'', Delay 2000, ApiGet ''rs1''])"
proof -
  have ne: "''HTTP 502: Bad Gateway'' \<noteq> ''AUTHENTICATION_FAILED''"
    by simp
  from first_attempt_transient [OF attempt_api_down ne, of 0]
    second_attempt_transient [OF attempt_api_down ne, of 1]
    third_attempt_transient [OF attempt_api_down ne, of 2]
  show ?thesis by (simp del: One_nat_def)
qed

theorem auth_failure_aborts_and_latches_witness:
  "observes_auth_failure api_forbidden_second 1
   \<and> retry_loop api_forbidden_second ''rs1'' True 2 1
       = (Inl ''AUTHENTICATION_FAILED'', [ApiGet ''rs1''])
   \<and> toggle_due example_config (example_env (ProbeResponse 503) api_forbidden_second 60000)
        (stored 0 (durable due_world))
   \<and> retry_loop api_forbidden_second ''rs1'' True 1 0
       = (Inl ''AUTHENTICATION_FAILED'', [ApiGet ''rs1'', Delay 1000, ApiGet ''rs1''])
   \<and> apiCallsDisabled (stored 0 (durable (snd (handleScheduled (Inr example_config)
        (example_env (ProbeResponse 503) api_forbidden_second 60000) due_world))))
   \<and> apiErrorsTotal (stored 0 (durable (snd (handleScheduled (Inr example_config)
        (example_env (ProbeResponse 503) api_forbidden_second 60000) due_world)))) = 0
   \<and> retry_loop api_down ''rs1'' True 1 0
       = (Inr False, [ApiGet ''rs1'', Delay 1000, ApiGet ''rs1'', Delay 2000, ApiGet ''rs1''])
   \<and> \<not> apiCallsDisabled (stored 0 (durable (snd (handleScheduled (Inr example_config)
        (example_env (ProbeResponse 503) api_down 60000) due_world))))
   \<and> apiErrorsTotal (stored 0 (durable (snd (handleScheduled (Inr example_config)
        (example_env (ProbeResponse 503) api_down 60000) due_world)))) = 1"
proof -
  define sd where "sd = (defaultState 0)\<lparr> failureCount := 2 \<rparr>"
  have d: "durable due_world = Some sd" "apiErrorsTotal sd = 0"
    by (simp_all add: due_world_def sd_def defaultState_def)
  have o: "(2::nat) \<le> 3" "observes_auth_failure api_forbidden_second 1"
    by (simp_all add: observes_auth_failure_def api_forbidden_second_def is_auth_status_def)
  have at: "fst (snd (attemptUpdate api_forbidden_second ''rs1'' True 1)) = [ApiGet ''rs1'']"
    by (simp add: attemptUpdate_def api_forbidden_second_def response_is_ok_def not_ok_error_def)
  have due: "toggle_due example_config (example_env (ProbeResponse 503) api 60000) sd" for api
    by (simp add: toggle_due_def example_config_def example_env_def sd_def defaultState_def
        maintenanceModeActive_def cycle_state_def)
  have e: "cloudflare (example_env (ProbeResponse 503) api 60000) = api"
    "\<not> probe_is_healthy (monitor (example_env (ProbeResponse 503) api 60000))" for api
    by (simp_all add: example_env_def)
  have rid: "redirectRuleId example_config = ''rs1''"
    by (simp add: example_config_def)
  from auth_failure_aborts_and_latches [of 2 api_forbidden_second 1 "''rs1''" True due_world sd
      example_config "example_env (ProbeResponse 503) api_forbidden_second 60000"]
    o at d due e rid api_forbidden_second_update
  have p1: "retry_loop api_forbidden_second ''rs1'' True 2 1
       = (Inl ''AUTHENTICATION_FAILED'', [ApiGet ''rs1''])
   \<and> apiCallsDisabled (stored 0 (durable (snd (handleScheduled (Inr example_config)
        (example_env (ProbeResponse 503) api_forbidden_second 60000) due_world))))
   \<and> apiErrorsTotal (stored 0 (durable (snd (handleScheduled (Inr example_config)
        (example_env (ProbeResponse 503) api_forbidden_second 60000) due_world)))) = 0"
    by (simp del: One_nat_def)
  from auth_failure_aborts_and_latches [of 2 api_forbidden_second 1 "''rs1''" True due_world sd
      example_config "example_env (ProbeResponse 503) api_down 60000"]
    d due e rid api_down_update
  have p2: "\<not> apiCallsDisabled (stored 0 (durable (snd (handleScheduled (Inr example_config)
        (example_env (ProbeResponse 503) api_down 60000) due_world))))
   \<and> apiErrorsTotal (stored 0 (durable (snd (handleScheduled (Inr example_config)
        (example_env (ProbeResponse 503) api_down 60000) due_world)))) = 1"
    by (simp del: One_nat_def)
  from p1 p2 o d due api_forbidden_second_update api_down_update show ?thesis
    by (simp del: One_nat_def)
qed

section \<open>Instances and companions\<close>

text \<open>
  On a store in maintenance mode whose next unhealthy probe meets the threshold, the
  scheduled cycle withholds the toggle and both simulation endpoints make it.
\<close>

theorem simulate_endpoints_ignore_maintenance_witness:
  "maintenanceModeActive (stored 0 (durable maintenance_world)) 60002
   \<and> toggle_calls (trace (snd (handleScheduled (Inr example_config)
        (example_env (ProbeResponse 503) api_ok 60000) maintenance_world))) = []
   \<and> toggle_calls (trace (snd (simulateFailoverHandler (Inr example_config)
        (example_request api_ok 60000) maintenance_world))) = [(''rs1'', True)]
   \<and> toggle_calls (trace (snd (simulateRecoveryHandler (Inr example_config)
        (example_request api_ok 60000) maintenance_world))) = [(''rs1'', False)]"
proof -
  have m: "maintenanceModeActive (stored 0 (durable maintenance_world)) 60002"
    by (simp add: maintenance_world_def maintenanceModeActive_def)
  have q: "toggle_calls (trace (snd (handleScheduled (Inr example_config)
        (example_env (ProbeResponse 503) api_ok 60000) maintenance_world))) = []"
    by (simp add: suppressed_cycle [where s = "(defaultState 0)\<lparr> failureCount := 2, maintenanceMode := True \<rparr>"]
        maintenance_world_def defaultState_def maintenanceModeActive_def cycle_state_def)
  have t: "toggle_calls (trace maintenance_world) = []" "redirectRuleId example_config = ''rs1''"
    by (simp_all add: maintenance_world_def example_config_def)
  from simulate_endpoints_ignore_maintenance [of example_config "example_request api_ok 60000"
      maintenance_world "example_request api_ok 60000"] m q t
  show ?thesis by simp
qed

text \<open>
  Every request to the Durable Object other than \<^verbatim>\<open>POST /reset-counters\<close> leaves each
  cumulative total at least what it was.
\<close>

lemma totals_monotone:
  assumes "\<not> (method = POST \<and> pathname = ''/reset-counters'')"
  shows "healthChecksTotal s
          \<le> healthChecksTotal (stored t (snd (do_fetch now method pathname body (Some s))))
       \<and> successesTotal s
          \<le> successesTotal (stored t (snd (do_fetch now method pathname body (Some s))))
       \<and> failuresTotal s
          \<le> failuresTotal (stored t (snd (do_fetch now method pathname body (Some s))))
       \<and> redirectRuleChangesTotal s
          \<le> redirectRuleChangesTotal (stored t (snd (do_fetch now method pathname body (Some s))))
       \<and> apiErrorsTotal s
          \<le> apiErrorsTotal (stored t (snd (do_fetch now method pathname body (Some s))))"
  using assms unfolding do_fetch_def getState_stored reply_def setState_def
  by (auto split: request_body.splits)

text \<open>
  \<open>cycle_state\<close> is what the first three requests of a cycle make \<^verbatim>\<open>getState\<close>
  return.
\<close>

lemma cycle_reads_cycle_state:
  "durable w = Some s \<Longrightarrow>
   fst (andThen (updateCronExecution (tCron env)) (\<lambda>_.
        andThen (cleanMaintenanceWindows (tClean env)) (\<lambda>_.
        sm_getState (tClean env))) w)
     = Inr (cycle_state env s)"
  by (simp add: andThen_def run_updateCronExecution run_cleanMaintenanceWindows run_sm_getState
      cycle_state_def)

end
